theory Spec2Isabelle
  imports Main "HOL-Library.AList"
begin

chapter \<open>The import map engine of esbuild-plugin-importmap\<close>

section \<open>Go strings, maps and errors\<close>

text \<open>
  Go strings are byte sequences, so a Go \<^verbatim>\<open>string\<close> is a \<^typ>\<open>string\<close> here and
  \<^verbatim>\<open>len\<close> is \<^const>\<open>length\<close>.  \<^verbatim>\<open>strings.HasPrefix\<close> and \<^verbatim>\<open>strings.HasSuffix\<close> are the
  two functions of package \<^verbatim>\<open>strings\<close> the import map uses.
\<close>

definition HasPrefix :: "string \<Rightarrow> string \<Rightarrow> bool" where
  "HasPrefix s pre = (length pre \<le> length s \<and> take (length pre) s = pre)"

definition HasSuffix :: "string \<Rightarrow> string \<Rightarrow> bool" where
  "HasSuffix s suf = (length suf \<le> length s \<and> drop (length s - length suf) s = suf)"

text \<open>
  A Go map \<^verbatim>\<open>map[string]T\<close> is \<^verbatim>\<open>nil\<close> (\<^const>\<open>None\<close>) or a table of entries with
  distinct keys.  The entries are kept as an association list whose order stands for
  the order in which a \<^verbatim>\<open>range\<close> loop happens to produce them; Go leaves that order
  open, so a property of a loop is proved for every order of the list.
  Reading a \<^verbatim>\<open>nil\<close> map finds no key, ranging over it runs no iteration, deleting
  from it does nothing, and assigning to an entry of it panics.  A read of a missing
  key yields the zero value, the empty string or the \<^verbatim>\<open>nil\<close> map.
\<close>

type_synonym 'v gomap = "(string \<times> 'v) list option"

definition entries :: "'v gomap \<Rightarrow> (string \<times> 'v) list" where
  "entries m = (case m of None \<Rightarrow> [] | Some kvs \<Rightarrow> kvs)"

definition mapKeys :: "'v gomap \<Rightarrow> string list" where
  "mapKeys m = map fst (entries m)"

definition mapGet :: "'v gomap \<Rightarrow> string \<Rightarrow> 'v option" where
  "mapGet m k = map_of (entries m) k"

definition mapHas :: "'v gomap \<Rightarrow> string \<Rightarrow> bool" where
  "mapHas m k = (mapGet m k \<noteq> None)"

definition stringAt :: "string gomap \<Rightarrow> string \<Rightarrow> string" where
  "stringAt m k = (case mapGet m k of None \<Rightarrow> '''' | Some v \<Rightarrow> v)"

definition scopeAt :: "string gomap gomap \<Rightarrow> string \<Rightarrow> string gomap" where
  "scopeAt m k = (case mapGet m k of None \<Rightarrow> None | Some scope \<Rightarrow> scope)"

text \<open>
  The outcomes that are not a result.  The first five are the \<^verbatim>\<open>error\<close> values the
  package returns: an error of \<^verbatim>\<open>net/url\<close> passed on
  (the specification's \<^verbatim>\<open>MalformedUrl\<close>),
  \<^verbatim>\<open>errors.New("invalid argument: mapUrl is nil")\<close>,
  \<^verbatim>\<open>errors.New("baseUrl is nil; it must be set")\<close>,
  \<^verbatim>\<open>errors.New("integrity not found")\<close> and
  \<^verbatim>\<open>fmt.Errorf("unable to resolve %s in %s", specifier, parentUrl.String())\<close>.
  A run-time panic of Go ends the call as well and is the sixth.
\<close>

datatype go_panic =
    IndexOutOfRange
  | SliceBoundsOutOfRange
  | NilPointerDereference
  | AssignmentToEntryInNilMap

datatype error =
    MalformedUrl string
  | MapUrlIsNil
  | BaseUrlIsNil
  | IntegrityNotFound
  | UnresolvedSpecifier string string
  | Panic go_panic

section \<open>The interface to \<^verbatim>\<open>net/url\<close>\<close>

text \<open>
  \<^verbatim>\<open>url.URL\<close> is the struct of Go's standard library, field by field (\<^verbatim>\<open>User\<close> holds
  the printed user information, or \<^const>\<open>None\<close> for \<^verbatim>\<open>nil\<close>).  A \<^verbatim>\<open>*url.URL\<close> that
  may be \<^verbatim>\<open>nil\<close> is an optional URL.
\<close>

record URL =
  Scheme :: string
  Opaque :: string
  User :: "string option"
  Host :: string
  Path :: string
  RawPath :: string
  OmitHost :: bool
  ForceQuery :: bool
  RawQuery :: string
  Fragment :: string
  RawFragment :: string

definition emptyURL :: URL where
  "emptyURL =
     \<lparr>Scheme = '''', Opaque = '''', User = None, Host = '''', Path = '''', RawPath = '''',
      OmitHost = False, ForceQuery = False, RawQuery = '''', Fragment = '''',
      RawFragment = ''''\<rparr>"

text \<open>
  The functions of \<^verbatim>\<open>net/url\<close> are not code of this repository.  The engine is
  embedded over them as a parameter: \<^verbatim>\<open>url.Parse\<close>, \<^verbatim>\<open>url.ParseRequestURI\<close>,
  \<^verbatim>\<open>url.JoinPath\<close> and the methods \<^verbatim>\<open>String\<close>, \<^verbatim>\<open>ResolveReference\<close> and \<^verbatim>\<open>Port\<close> of
  \<^verbatim>\<open>*url.URL\<close>.  A theorem stated for every \<open>lib\<close> holds whatever the library computes.
\<close>

record net_url =
  url_Parse :: "string \<Rightarrow> error + URL"
  url_ParseRequestURI :: "string \<Rightarrow> error + URL"
  url_JoinPath :: "string \<Rightarrow> string list \<Rightarrow> error + string"
  URL_String :: "URL \<Rightarrow> string"
  URL_ResolveReference :: "URL \<Rightarrow> URL \<Rightarrow> URL"
  URL_Port :: "URL \<Rightarrow> string"

section \<open>URL primitives (the file of \<^verbatim>\<open>resolve\<close> and \<^verbatim>\<open>rebase\<close>)\<close>

text \<open>
  \<^verbatim>\<open>resolve\<close>, lines 9-35.  The byte \<^verbatim>\<open>inputUrl[1]\<close> is read as soon as the input starts
  with \<^verbatim>\<open>/\<close> and a root is set; Go panics when the input has no second byte.
\<close>

definition resolve :: "net_url \<Rightarrow> string \<Rightarrow> URL option \<Rightarrow> URL option \<Rightarrow> error + string" where
  "resolve lib inputUrl mapUrl rootUrl =
     (if HasPrefix inputUrl ''/''
      then (case rootUrl of
              Some root \<Rightarrow>
                if length inputUrl \<le> 1 then Inl (Panic IndexOutOfRange)
                else let tempUrl = (if inputUrl ! 1 = CHR ''/'' then drop 1 inputUrl else inputUrl)
                     in url_JoinPath lib (URL_String lib root) [''.'', tempUrl]
            | None \<Rightarrow> Inr inputUrl)
      else (case url_Parse lib inputUrl of
              Inl err \<Rightarrow> Inl err
            | Inr u \<Rightarrow>
                (case mapUrl of
                   Some m \<Rightarrow> Inr (URL_String lib (URL_ResolveReference lib m u))
                 | None \<Rightarrow> Inr (URL_String lib u))))"

text \<open>\<^verbatim>\<open>sameOrigin\<close>, lines 75-80.\<close>

definition sameOrigin :: "net_url \<Rightarrow> URL option \<Rightarrow> URL option \<Rightarrow> bool" where
  "sameOrigin lib inputUrl baseUrl =
     (case inputUrl of
        None \<Rightarrow> False
      | Some a \<Rightarrow>
          (case baseUrl of
             None \<Rightarrow> False
           | Some b \<Rightarrow> Scheme a = Scheme b \<and> Host a = Host b \<and> URL_Port lib a = URL_Port lib b))"

text \<open>
  \<^verbatim>\<open>rebase\<close>, lines 37-73.  \<open>rebase_resolved\<close> is its second half (lines 60-72), run once
  the local \<^verbatim>\<open>resolved\<close> is set.  The slice
  \<^verbatim>\<open>resolved.String()[len(rootUrl.String())-1:]\<close> starts at \<open>-1\<close> when the root prints
  as the empty string, where Go panics.
\<close>

definition rebase_resolved :: "net_url \<Rightarrow> URL \<Rightarrow> URL \<Rightarrow> URL option \<Rightarrow> error + string" where
  "rebase_resolved lib resolved baseUrl rootUrl =
     (let tail = (if sameOrigin lib (Some resolved) (Some baseUrl)
                  then Inr (URL_String lib (URL_ResolveReference lib baseUrl resolved))
                  else Inr (URL_String lib resolved))
      in case rootUrl of
           None \<Rightarrow> tail
         | Some root \<Rightarrow>
             if HasPrefix (URL_String lib resolved) (URL_String lib root)
             then (if URL_String lib root = '''' then Inl (Panic SliceBoundsOutOfRange)
                   else Inr (drop (length (URL_String lib root) - 1) (URL_String lib resolved)))
             else if HasPrefix (URL_String lib root) (URL_String lib resolved)
             then Inr (''/'' @ URL_String lib (URL_ResolveReference lib root resolved))
             else tail)"

definition rebase :: "net_url \<Rightarrow> string \<Rightarrow> URL option \<Rightarrow> URL option \<Rightarrow> error + string" where
  "rebase lib inputUrl baseUrl rootUrl =
     (case baseUrl of
        None \<Rightarrow> Inl BaseUrlIsNil
      | Some base \<Rightarrow>
          (case url_Parse lib inputUrl of
             Inl err \<Rightarrow> Inl err
           | Inr u \<Rightarrow>
               if HasPrefix inputUrl ''/'' \<or> HasPrefix inputUrl ''//''
               then (case rootUrl of
                       None \<Rightarrow> Inr inputUrl
                     | Some root \<Rightarrow>
                         rebase_resolved lib (URL_ResolveReference lib root u) base rootUrl)
               else rebase_resolved lib (URL_ResolveReference lib base u) base rootUrl))"

text \<open>\<^verbatim>\<open>isUrl\<close>, \<^verbatim>\<open>isRelative\<close> and \<^verbatim>\<open>isPlain\<close>, lines 82-93.\<close>

definition isUrl :: "net_url \<Rightarrow> string \<Rightarrow> bool" where
  "isUrl lib inputUrl = (case url_ParseRequestURI lib inputUrl of Inl err \<Rightarrow> False | Inr u \<Rightarrow> True)"

definition isRelative :: "string \<Rightarrow> bool" where
  "isRelative specifier =
     (HasPrefix specifier ''./'' \<or> HasPrefix specifier ''../'' \<or> HasPrefix specifier ''/'')"

definition isPlain :: "net_url \<Rightarrow> string \<Rightarrow> bool" where
  "isPlain lib specifier = (\<not> isRelative specifier \<and> \<not> isUrl lib specifier)"

section \<open>The import map (importmap.go)\<close>

text \<open>
  The struct \<^verbatim>\<open>importMap\<close>, lines 110-116; its fields carry the prefix \<open>im_\<close> so that
  the parameters \<^verbatim>\<open>mapUrl\<close> and \<^verbatim>\<open>rootUrl\<close> of the methods keep their names.  Each
  scope's table is taken to be referenced from one scope key only, as it is when the
  tables come from literals or from a decoded JSON document.
\<close>

record importMap =
  im_imports :: "string gomap"
  im_scopes :: "string gomap gomap"
  im_integrity :: "string gomap"
  im_mapUrl :: "URL option"
  im_rootUrl :: "URL option"

subsection \<open>\<^verbatim>\<open>getMapMatch\<close>, lines 507-524\<close>

text \<open>
  The loop of \<^verbatim>\<open>getMapMatch\<close> over the keys still to be produced, with the local
  \<^verbatim>\<open>curMatch\<close> as accumulator.  The slice \<^verbatim>\<open>match[:len(match)-1]\<close> is only reached for a
  key that ends in \<^verbatim>\<open>/\<close> or \<^verbatim>\<open>*\<close>, hence a non-empty one.
\<close>

fun getMapMatch_scan :: "string \<Rightarrow> string list \<Rightarrow> string \<Rightarrow> string" where
  "getMapMatch_scan specifier [] curMatch = curMatch"
| "getMapMatch_scan specifier (match # rest) curMatch =
     (let wildcard = HasSuffix match ''*'' in
      if \<not> HasSuffix match ''/'' \<and> \<not> wildcard
      then getMapMatch_scan specifier rest curMatch
      else if HasPrefix specifier (take (length match - 1) match)
      then (if curMatch = '''' \<or> length match > length curMatch
            then getMapMatch_scan specifier rest match
            else getMapMatch_scan specifier rest curMatch)
      else getMapMatch_scan specifier rest curMatch)"

definition getMapMatch :: "string \<Rightarrow> 'v gomap \<Rightarrow> string" where
  "getMapMatch specifier inputMap =
     (if mapHas inputMap specifier then specifier
      else getMapMatch_scan specifier (mapKeys inputMap) '''')"

subsection \<open>\<^verbatim>\<open>getScopeMatches\<close>, lines 479-505\<close>

text \<open>
  A \<^verbatim>\<open>scopeMatchTuple\<close> is the pair of its fields \<^verbatim>\<open>First\<close> (the scope key) and
  \<^verbatim>\<open>Second\<close> (its resolved location).  The first loop returns at the first scope that
  fails to resolve.  \<^verbatim>\<open>sort.Slice\<close> orders by \<^verbatim>\<open>len(Second)\<close> and promises nothing on
  ties; since the candidates arrive in an arbitrary order already, every order it may
  leave is the stable sort of some arrival order.
\<close>

fun getScopeMatches_candidates ::
  "net_url \<Rightarrow> string list \<Rightarrow> URL option \<Rightarrow> URL option \<Rightarrow> error + (string \<times> string) list" where
  "getScopeMatches_candidates lib [] mapUrl rootUrl = Inr []"
| "getScopeMatches_candidates lib (scope # rest) mapUrl rootUrl =
     (case resolve lib scope mapUrl rootUrl of
        Inl err \<Rightarrow> Inl err
      | Inr scopeUrl \<Rightarrow>
          (case getScopeMatches_candidates lib rest mapUrl rootUrl of
             Inl err \<Rightarrow> Inl err
           | Inr scopeCandidates \<Rightarrow> Inr ((scope, scopeUrl) # scopeCandidates)))"

definition getScopeMatches ::
  "net_url \<Rightarrow> string \<Rightarrow> string gomap gomap \<Rightarrow> URL option \<Rightarrow> URL option
     \<Rightarrow> error + (string \<times> string) list" where
  "getScopeMatches lib parentUrl scopes mapUrl rootUrl =
     (case getScopeMatches_candidates lib (mapKeys scopes) mapUrl rootUrl of
        Inl err \<Rightarrow> Inl err
      | Inr scopeCandidates \<Rightarrow>
          Inr (filter (\<lambda>candidate.
                         snd candidate = parentUrl \<or>
                         (HasSuffix (snd candidate) ''/'' \<and> HasPrefix parentUrl (snd candidate)))
                 (sort_key (\<lambda>candidate. length (snd candidate)) scopeCandidates)))"

subsection \<open>\<^verbatim>\<open>ResolveWithParent\<close> and \<^verbatim>\<open>Resolve\<close>, lines 396-468\<close>

text \<open>
  \<open>matchWithRetries\<close> is the block the method runs once per matching scope (lines
  423-437) and once for the top-level table (lines 443-457): the map match, retried on
  the rebased specifier and once more on the specifier rebased with no root.  It
  yields \<^verbatim>\<open>mapMatch\<close> and the new value of the variable \<^verbatim>\<open>specifier\<close>.  \<open>nonPlain\<close> is
  the test \<^verbatim>\<open>specifierUrl != nil\<close>.
\<close>

definition matchWithRetries ::
  "net_url \<Rightarrow> importMap \<Rightarrow> bool \<Rightarrow> string \<Rightarrow> string gomap \<Rightarrow> error + string \<times> string" where
  "matchWithRetries lib i nonPlain specifier table =
     (if getMapMatch specifier table = '''' \<and> nonPlain
      then (case rebase lib specifier (im_mapUrl i) (im_rootUrl i) of
              Inl err \<Rightarrow> Inl err
            | Inr specifier1 \<Rightarrow>
                if getMapMatch specifier1 table = '''' \<and> im_rootUrl i \<noteq> None
                then (case rebase lib specifier1 (im_mapUrl i) None of
                        Inl err \<Rightarrow> Inl err
                      | Inr specifier2 \<Rightarrow> Inr (getMapMatch specifier2 table, specifier2))
                else Inr (getMapMatch specifier1 table, specifier1))
      else Inr (getMapMatch specifier table, specifier))"

text \<open>
  Lines 439-440 and 460-461: the result on a match.  The slice
  \<^verbatim>\<open>specifier[len(mapMatch):]\<close> panics when the matched key is longer than the specifier.
\<close>

definition resolveMatched ::
  "net_url \<Rightarrow> importMap \<Rightarrow> string gomap \<Rightarrow> string \<Rightarrow> string \<Rightarrow> error + string" where
  "resolveMatched lib i table mapMatch specifier =
     (if length mapMatch > length specifier then Inl (Panic SliceBoundsOutOfRange)
      else resolve lib (stringAt table mapMatch @ drop (length mapMatch) specifier)
             (im_mapUrl i) (im_rootUrl i))"

text \<open>
  The loop over \<^verbatim>\<open>scopeMatches\<close>, lines 422-442.  \<open>Inl r\<close>: the method returned \<open>r\<close>
  from inside the loop; \<open>Inr s\<close>: the loop ended, with \<open>s\<close> in the variable
  \<^verbatim>\<open>specifier\<close>.
\<close>

fun ResolveWithParent_scopes ::
  "net_url \<Rightarrow> importMap \<Rightarrow> bool \<Rightarrow> (string \<times> string) list \<Rightarrow> string
     \<Rightarrow> (error + string) + string" where
  "ResolveWithParent_scopes lib i nonPlain [] specifier = Inr specifier"
| "ResolveWithParent_scopes lib i nonPlain (scopeMatch # rest) specifier =
     (case matchWithRetries lib i nonPlain specifier (scopeAt (im_scopes i) (fst scopeMatch)) of
        Inl err \<Rightarrow> Inl (Inl err)
      | Inr (mapMatch, specifier') \<Rightarrow>
          if mapMatch \<noteq> ''''
          then Inl (resolveMatched lib i (scopeAt (im_scopes i) (fst scopeMatch)) mapMatch specifier')
          else ResolveWithParent_scopes lib i nonPlain rest specifier')"

text \<open>
  Lines 407-415: \<^verbatim>\<open>specifierUrl\<close> stays \<^verbatim>\<open>nil\<close> for a plain specifier; otherwise the
  specifier is parsed and resolved against the parent.
\<close>

definition specifierUrlOf :: "net_url \<Rightarrow> string \<Rightarrow> URL \<Rightarrow> error + URL option" where
  "specifierUrlOf lib specifier parentUrl =
     (if \<not> isPlain lib specifier
      then (case url_Parse lib specifier of
              Inl urlParseErr \<Rightarrow> Inl urlParseErr
            | Inr u \<Rightarrow> Inr (Some (URL_ResolveReference lib parentUrl u)))
      else Inr None)"

definition ResolveWithParent ::
  "net_url \<Rightarrow> importMap \<Rightarrow> string \<Rightarrow> URL option \<Rightarrow> error + string" where
  "ResolveWithParent lib i specifier parentUrl =
     (case parentUrl of
        None \<Rightarrow> Inl (Panic NilPointerDereference)
      | Some parent \<Rightarrow>
     (case resolve lib (URL_String lib parent) (im_mapUrl i) (im_rootUrl i) of
        Inl err \<Rightarrow> Inl err
      | Inr parentUrlRaw \<Rightarrow>
     (case specifierUrlOf lib specifier parent of
        Inl err \<Rightarrow> Inl err
      | Inr specifierUrl \<Rightarrow>
     (case getScopeMatches lib parentUrlRaw (im_scopes i) (im_mapUrl i) (im_rootUrl i) of
        Inl err \<Rightarrow> Inl err
      | Inr scopeMatches \<Rightarrow>
     (case ResolveWithParent_scopes lib i (specifierUrl \<noteq> None) scopeMatches
             (case specifierUrl of None \<Rightarrow> specifier | Some su \<Rightarrow> URL_String lib su) of
        Inl returned \<Rightarrow> returned
      | Inr specifier1 \<Rightarrow>
     (case matchWithRetries lib i (specifierUrl \<noteq> None) specifier1 (im_imports i) of
        Inl err \<Rightarrow> Inl err
      | Inr (mapMatch, specifier2) \<Rightarrow>
          if mapMatch \<noteq> '''' then resolveMatched lib i (im_imports i) mapMatch specifier2
          else (case specifierUrl of
                  Some su \<Rightarrow> Inr (URL_String lib su)
                | None \<Rightarrow> Inl (UnresolvedSpecifier specifier2 (URL_String lib parent)))))))))"

definition Resolve :: "net_url \<Rightarrow> importMap \<Rightarrow> string \<Rightarrow> error + string" where
  "Resolve lib i specifier = ResolveWithParent lib i specifier (im_mapUrl i)"

subsection \<open>\<^verbatim>\<open>GetIntegrityValue\<close>, lines 232-246\<close>

text \<open>
  The second lookup is under \<^verbatim>\<open>targetRebased[2:]\<close>, which panics when the rebased
  target has fewer than two bytes.
\<close>

definition GetIntegrityValue :: "net_url \<Rightarrow> importMap \<Rightarrow> string \<Rightarrow> error + string" where
  "GetIntegrityValue lib i target =
     (case rebase lib target (im_mapUrl i) (im_rootUrl i) of
        Inl err \<Rightarrow> Inl err
      | Inr targetRebased \<Rightarrow>
          (case mapGet (im_integrity i) targetRebased of
             Some v \<Rightarrow> Inr v
           | None \<Rightarrow>
               if length targetRebased < 2 then Inl (Panic SliceBoundsOutOfRange)
               else (case mapGet (im_integrity i) (drop 2 targetRebased) of
                       Some v \<Rightarrow> Inr v
                     | None \<Rightarrow> Inl IntegrityNotFound)))"

subsection \<open>\<^verbatim>\<open>Rebase\<close>, lines 269-378\<close>

text \<open>
  The loops of \<^verbatim>\<open>Rebase\<close> change the table they range over.  A loop is run over the
  keys the table had when the loop began, in the table's order; a key whose entry was
  deleted before the loop reached it is skipped, as Go prescribes, and an entry created
  during the loop is not visited unless its key was still to come (Go allows to visit
  or to skip it).  A call that fails returns the error only: the state a failed
  \<^verbatim>\<open>Rebase\<close> leaves behind is not part of the model.

  \<open>Rebase_table\<close> is the loop over the top-level imports (lines 285-310) and, with the
  same body, over the imports of one scope (lines 314-339).  \<open>oldMap\<close> and \<open>oldRoot\<close>
  are the fields \<^verbatim>\<open>i.mapUrl\<close> and \<^verbatim>\<open>i.rootUrl\<close>, \<open>mapUrl\<close> and \<open>rootUrl\<close> the new pair.
\<close>

fun Rebase_table ::
  "net_url \<Rightarrow> URL option \<Rightarrow> URL option \<Rightarrow> URL option \<Rightarrow> URL option \<Rightarrow> string list
     \<Rightarrow> (string \<times> string) list \<Rightarrow> error + (string \<times> string) list" where
  "Rebase_table lib oldMap oldRoot mapUrl rootUrl [] table = Inr table"
| "Rebase_table lib oldMap oldRoot mapUrl rootUrl (importKey # rest) table =
     (case map_of table importKey of
        None \<Rightarrow> Rebase_table lib oldMap oldRoot mapUrl rootUrl rest table
      | Some target \<Rightarrow>
     (case resolve lib target oldMap oldRoot of
        Inl err \<Rightarrow> Inl err
      | Inr resolvedTarget \<Rightarrow>
     (case rebase lib resolvedTarget oldMap oldRoot of
        Inl err \<Rightarrow> Inl err
      | Inr newTarget \<Rightarrow>
          if \<not> isPlain lib importKey
          then (case resolve lib importKey oldMap oldRoot of
                  Inl resolvErr \<Rightarrow> Inl resolvErr
                | Inr resolvedImportKey \<Rightarrow>
               (case rebase lib resolvedImportKey mapUrl rootUrl of
                  Inl rebaseErr \<Rightarrow> Inl rebaseErr
                | Inr newImport \<Rightarrow>
                    if newImport \<noteq> importKey
                    then Rebase_table lib oldMap oldRoot mapUrl rootUrl rest
                           (AList.delete importKey
                              (AList.update newImport newTarget
                                 (AList.update importKey newTarget table)))
                    else Rebase_table lib oldMap oldRoot mapUrl rootUrl rest
                           (AList.update importKey newTarget table)))
          else Rebase_table lib oldMap oldRoot mapUrl rootUrl rest
                 (AList.update importKey newTarget table))))"

definition Rebase_imports ::
  "net_url \<Rightarrow> URL option \<Rightarrow> URL option \<Rightarrow> URL option \<Rightarrow> URL option \<Rightarrow> string gomap
     \<Rightarrow> error + string gomap" where
  "Rebase_imports lib oldMap oldRoot mapUrl rootUrl imports =
     (case imports of
        None \<Rightarrow> Inr None
      | Some table \<Rightarrow>
          (case Rebase_table lib oldMap oldRoot mapUrl rootUrl (map fst table) table of
             Inl err \<Rightarrow> Inl err
           | Inr table' \<Rightarrow> Inr (Some table')))"

text \<open>
  The loop over the scopes, lines 312-358.  The scope's table is a reference, so what
  the inner loop wrote is in \<^verbatim>\<open>i.scopes[scopeKey]\<close> whether or not
  \<^verbatim>\<open>changedScopeImportProps\<close> was set.
\<close>

fun Rebase_scopes ::
  "net_url \<Rightarrow> URL option \<Rightarrow> URL option \<Rightarrow> URL option \<Rightarrow> URL option \<Rightarrow> string list
     \<Rightarrow> (string \<times> string gomap) list \<Rightarrow> error + (string \<times> string gomap) list" where
  "Rebase_scopes lib oldMap oldRoot mapUrl rootUrl [] scopes = Inr scopes"
| "Rebase_scopes lib oldMap oldRoot mapUrl rootUrl (scopeKey # rest) scopes =
     (case map_of scopes scopeKey of
        None \<Rightarrow> Rebase_scopes lib oldMap oldRoot mapUrl rootUrl rest scopes
      | Some scopeImports \<Rightarrow>
     (case Rebase_imports lib oldMap oldRoot mapUrl rootUrl scopeImports of
        Inl err \<Rightarrow> Inl err
      | Inr scopeImports' \<Rightarrow>
     (case resolve lib scopeKey oldMap oldRoot of
        Inl err \<Rightarrow> Inl err
      | Inr resolvedScopeKey \<Rightarrow>
     (case rebase lib resolvedScopeKey mapUrl rootUrl of
        Inl rebaseErr \<Rightarrow> Inl rebaseErr
      | Inr newScope \<Rightarrow>
          if newScope \<noteq> scopeKey
          then Rebase_scopes lib oldMap oldRoot mapUrl rootUrl rest
                 (AList.delete scopeKey
                    (AList.update newScope scopeImports'
                       (AList.update scopeKey scopeImports' scopes)))
          else Rebase_scopes lib oldMap oldRoot mapUrl rootUrl rest
                 (AList.update scopeKey scopeImports' scopes)))))"

text \<open>
  The loop over the integrity table, lines 360-373.  The read
  \<^verbatim>\<open>i.integrity[integrityValue]\<close> looks the stored value up as a key.
\<close>

fun Rebase_integrity ::
  "net_url \<Rightarrow> URL option \<Rightarrow> URL option \<Rightarrow> string list \<Rightarrow> (string \<times> string) list
     \<Rightarrow> error + (string \<times> string) list" where
  "Rebase_integrity lib oldMap oldRoot [] table = Inr table"
| "Rebase_integrity lib oldMap oldRoot (integrityKey # rest) table =
     (case map_of table integrityKey of
        None \<Rightarrow> Rebase_integrity lib oldMap oldRoot rest table
      | Some integrityValue \<Rightarrow>
     (case resolve lib integrityValue oldMap oldRoot of
        Inl err \<Rightarrow> Inl err
      | Inr resolvedIntegrityValue \<Rightarrow>
     (case rebase lib resolvedIntegrityValue oldMap oldRoot of
        Inl err \<Rightarrow> Inl err
      | Inr newValue \<Rightarrow>
          if integrityKey \<noteq> integrityValue
          then Rebase_integrity lib oldMap oldRoot rest
                 (AList.delete integrityValue
                    (AList.update integrityKey
                       (stringAt (Some (AList.update integrityKey newValue table)) integrityValue)
                       (AList.update integrityKey newValue table)))
          else Rebase_integrity lib oldMap oldRoot rest
                 (AList.update integrityKey newValue table))))"

text \<open>Lines 273-283: the root the map is moved to when the caller passes none.\<close>

definition Rebase_rootUrl :: "net_url \<Rightarrow> importMap \<Rightarrow> URL \<Rightarrow> URL option \<Rightarrow> URL option" where
  "Rebase_rootUrl lib i mapUrl rootUrl =
     (case rootUrl of
        Some root \<Rightarrow> rootUrl
      | None \<Rightarrow>
          (case im_mapUrl i of
             None \<Rightarrow> rootUrl
           | Some oldMap \<Rightarrow>
               if URL_String lib mapUrl = URL_String lib oldMap then im_mapUrl i
               else if im_rootUrl i = None \<or> (Scheme mapUrl \<noteq> ''https'' \<and> Scheme mapUrl \<noteq> ''http'')
               then None
               else Some (URL_ResolveReference lib mapUrl (emptyURL\<lparr>Path := ''/''\<rparr>))))"

definition Rebase :: "net_url \<Rightarrow> importMap \<Rightarrow> URL option \<Rightarrow> URL option \<Rightarrow> error + importMap" where
  "Rebase lib i mapUrl rootUrl =
     (case mapUrl of
        None \<Rightarrow> Inl MapUrlIsNil
      | Some newMap \<Rightarrow>
     (case Rebase_imports lib (im_mapUrl i) (im_rootUrl i) mapUrl
             (Rebase_rootUrl lib i newMap rootUrl) (im_imports i) of
        Inl err \<Rightarrow> Inl err
      | Inr imports' \<Rightarrow>
     (case (case im_scopes i of
              None \<Rightarrow> Inr None
            | Some scopes \<Rightarrow>
                (case Rebase_scopes lib (im_mapUrl i) (im_rootUrl i) mapUrl
                        (Rebase_rootUrl lib i newMap rootUrl) (map fst scopes) scopes of
                   Inl err \<Rightarrow> Inl err
                 | Inr scopes' \<Rightarrow> Inr (Some scopes'))) of
        Inl err \<Rightarrow> Inl err
      | Inr scopes' \<Rightarrow>
     (case (case im_integrity i of
              None \<Rightarrow> Inr None
            | Some integrity \<Rightarrow>
                (case Rebase_integrity lib (im_mapUrl i) (im_rootUrl i) (map fst integrity)
                        integrity of
                   Inl err \<Rightarrow> Inl err
                 | Inr integrity' \<Rightarrow> Inr (Some integrity'))) of
        Inl err \<Rightarrow> Inl err
      | Inr integrity' \<Rightarrow>
          Inr (i\<lparr>im_imports := imports', im_scopes := scopes', im_integrity := integrity',
                 im_mapUrl := mapUrl, im_rootUrl := Rebase_rootUrl lib i newMap rootUrl\<rparr>)))))"

subsection \<open>\<^verbatim>\<open>Extend\<close>, lines 180-209\<close>

text \<open>
  \<open>assignAll dst src\<close> is the loop \<^verbatim>\<open>for k, v := range src { dst[k] = v }\<close>.  The
  receiver and the other map are taken to be two objects that share no table; the
  result is the receiver, which is what \<^verbatim>\<open>Extend\<close> returns.
\<close>

fun assignAll :: "'v gomap \<Rightarrow> (string \<times> 'v) list \<Rightarrow> error + 'v gomap" where
  "assignAll dst [] = Inr dst"
| "assignAll dst ((k, v) # rest) =
     (case dst of
        None \<Rightarrow> Inl (Panic AssignmentToEntryInNilMap)
      | Some table \<Rightarrow> assignAll (Some (AList.update k v table)) rest)"

text \<open>
  Lines 190-198, the merge of the other map's scopes when \<^verbatim>\<open>overrideScopes\<close> is off.
  A scope the receiver lacks is created empty first; the entries are then written into
  the receiver's table for that scope.
\<close>

fun Extend_scopes ::
  "(string \<times> string gomap) list \<Rightarrow> (string \<times> string gomap) list option
     \<Rightarrow> error + string gomap gomap" where
  "Extend_scopes [] scopes = Inr scopes"
| "Extend_scopes ((scopeKey, scope) # rest) scopes =
     (case (if mapHas scopes scopeKey then Inr scopes
            else assignAll scopes [(scopeKey, Some [])]) of
        Inl err \<Rightarrow> Inl err
      | Inr scopes1 \<Rightarrow>
          (case assignAll (scopeAt scopes1 scopeKey) (entries scope) of
             Inl err \<Rightarrow> Inl err
           | Inr merged \<Rightarrow>
               Extend_scopes rest (map_option (AList.update scopeKey merged) scopes1)))"

definition Extend :: "net_url \<Rightarrow> importMap \<Rightarrow> importMap \<Rightarrow> bool \<Rightarrow> error + importMap" where
  "Extend lib i other overrideScopes =
     (case assignAll (im_imports i) (entries (im_imports other)) of
        Inl err \<Rightarrow> Inl err
      | Inr imports' \<Rightarrow>
     (case (if overrideScopes then assignAll (im_scopes i) (entries (im_scopes other))
            else if im_scopes other \<noteq> None then Extend_scopes (entries (im_scopes other)) (im_scopes i)
            else Inr (im_scopes i)) of
        Inl err \<Rightarrow> Inl err
      | Inr scopes' \<Rightarrow>
     (case assignAll (im_integrity i) (entries (im_integrity other)) of
        Inl err \<Rightarrow> Inl err
      | Inr integrity' \<Rightarrow>
          Rebase lib (i\<lparr>im_imports := imports', im_scopes := scopes', im_integrity := integrity'\<rparr>)
            (im_mapUrl i) None)))"

subsection \<open>\<^verbatim>\<open>New\<close>, lines 96-150\<close>

text \<open>
  The structs \<^verbatim>\<open>Data\<close> and \<^verbatim>\<open>Options\<close>; the options functions \<^verbatim>\<open>WithMap\<close>,
  \<^verbatim>\<open>WithMapUrl\<close> and \<^verbatim>\<open>WithRootUrl\<close> set one field each, so a call of \<^verbatim>\<open>New\<close> is given
  by the \<^verbatim>\<open>Options\<close> they leave.  \<open>getwd\<close> is what \<^verbatim>\<open>os.Getwd()\<close> returns.
\<close>

record Data =
  Imports :: "string gomap"
  Scopes :: "string gomap gomap"
  Integrity :: "string gomap"

record Options =
  opt_Map :: Data
  opt_MapUrl :: "URL option"
  opt_RootUrl :: "URL option"

definition New :: "net_url \<Rightarrow> error + string \<Rightarrow> Options \<Rightarrow> error + importMap" where
  "New lib getwd options =
     (case (case opt_MapUrl options of
              Some m \<Rightarrow> Inr m
            | None \<Rightarrow>
                (case getwd of
                   Inl err \<Rightarrow> Inl err
                 | Inr cwd \<Rightarrow> url_Parse lib (''file://'' @ cwd @ ''/''))) of
        Inl err \<Rightarrow> Inl err
      | Inr m \<Rightarrow>
          Inr \<lparr>im_imports = Imports (opt_Map options), im_scopes = Scopes (opt_Map options),
               im_integrity = Integrity (opt_Map options), im_mapUrl = Some m,
               im_rootUrl =
                 (if opt_RootUrl options = None \<and> (Scheme m = ''http'' \<or> Scheme m = ''https'')
                  then Some (URL_ResolveReference lib m (emptyURL\<lparr>Path := ''/''\<rparr>))
                  else opt_RootUrl options)\<rparr>)"

section \<open>The specification's wording\<close>

text \<open>
  A prefix key, as the specification words it: a key that ends in \<^verbatim>\<open>/\<close> or \<^verbatim>\<open>*\<close> and
  whose stripped form (the key without its last character) is a string-prefix of the
  candidate.
\<close>

definition prefixKeyOf :: "string \<Rightarrow> string \<Rightarrow> bool" where
  "prefixKeyOf c k =
     ((HasSuffix k ''/'' \<or> HasSuffix k ''*'') \<and> HasPrefix c (butlast k))"

text \<open>
  A scope location that matches a parent location, as the specification words it: it
  equals the parent location, or it ends in \<^verbatim>\<open>/\<close> and is a string-prefix of it.
\<close>

definition scopeCovers :: "string \<Rightarrow> string \<Rightarrow> bool" where
  "scopeCovers scopeUrl parentUrl =
     (scopeUrl = parentUrl \<or> (HasSuffix scopeUrl ''/'' \<and> HasPrefix parentUrl scopeUrl))"

section \<open>A reference instance of \<^verbatim>\<open>net/url\<close>\<close>

text \<open>
  The closed theorems below run the engine on concrete locations, which needs the
  library's functions as values.  \<open>goUrl\<close> follows Go's \<^verbatim>\<open>net/url\<close> and \<^verbatim>\<open>path\<close> packages
  on the references that are written with ASCII letters, digits and the characters
  \<^verbatim>\<open>- _ . ~ / :\<close> only: no query, no fragment, no user information, no escape, no
  bracketed host.  On these no byte is ever escaped, so \<^verbatim>\<open>Path\<close> is its own escaped
  form and \<^verbatim>\<open>RawPath\<close> stays empty.  \<open>go_parse\<close> refuses every other string with an
  error of its own; no theorem evaluates it there.
\<close>

definition isLetter :: "char \<Rightarrow> bool" where
  "isLetter c = (c \<in> set ''abcdefghijklmnopqrstuvwxyzABCDEFGHIJKLMNOPQRSTUVWXYZ'')"

definition isDigit :: "char \<Rightarrow> bool" where
  "isDigit c = (c \<in> set ''0123456789'')"

definition plainReference :: "string \<Rightarrow> bool" where
  "plainReference s = list_all (\<lambda>c. isLetter c \<or> isDigit c \<or> c \<in> set ''-_.~/:'') s"

definition ToLower :: "string \<Rightarrow> string" where
  "ToLower s =
     map (\<lambda>c. case map_of (zip ''ABCDEFGHIJKLMNOPQRSTUVWXYZ'' ''abcdefghijklmnopqrstuvwxyz'') c of
                 Some l \<Rightarrow> l
               | None \<Rightarrow> c) s"

text \<open>\<^verbatim>\<open>getScheme\<close>: \<open>seen\<close> is \<^verbatim>\<open>rawURL[:i]\<close>, the third argument \<^verbatim>\<open>rawURL[i:]\<close>.\<close>

fun getScheme_scan :: "string \<Rightarrow> string \<Rightarrow> string \<Rightarrow> error + string \<times> string" where
  "getScheme_scan rawURL seen [] = Inr ('''', rawURL)"
| "getScheme_scan rawURL seen (c # cs) =
     (if isLetter c then getScheme_scan rawURL (seen @ [c]) cs
      else if isDigit c \<or> c = CHR ''+'' \<or> c = CHR ''-'' \<or> c = CHR ''.''
      then (if seen = [] then Inr ('''', rawURL) else getScheme_scan rawURL (seen @ [c]) cs)
      else if c = CHR '':''
      then (if seen = [] then Inl (MalformedUrl ''missing protocol scheme'') else Inr (seen, cs))
      else Inr ('''', rawURL))"

definition getScheme :: "string \<Rightarrow> error + string \<times> string" where
  "getScheme rawURL = getScheme_scan rawURL [] rawURL"

text \<open>
  \<open>afterLast c s\<close> is \<^verbatim>\<open>s[strings.LastIndexByte(s, c)+1:]\<close> and \<open>beforeLast c s\<close> is
  \<^verbatim>\<open>s[:strings.LastIndexByte(s, c)]\<close>, for an \<open>s\<close> that holds \<open>c\<close>.
\<close>

definition afterLast :: "char \<Rightarrow> string \<Rightarrow> string" where
  "afterLast c s = rev (takeWhile (\<lambda>x. x \<noteq> c) (rev s))"

definition beforeLast :: "char \<Rightarrow> string \<Rightarrow> string" where
  "beforeLast c s = rev (drop 1 (dropWhile (\<lambda>x. x \<noteq> c) (rev s)))"

definition validOptionalPort :: "string \<Rightarrow> bool" where
  "validOptionalPort port =
     (case port of [] \<Rightarrow> True | c # ds \<Rightarrow> c = CHR '':'' \<and> list_all isDigit ds)"

definition parseHost :: "string \<Rightarrow> error + string" where
  "parseHost host =
     (if CHR '':'' \<in> set host \<and> \<not> validOptionalPort (CHR '':'' # afterLast CHR '':'' host)
      then Inl (MalformedUrl ''invalid port after host'')
      else Inr host)"

definition setPath :: "URL \<Rightarrow> string \<Rightarrow> URL" where
  "setPath u p = u\<lparr>Path := p, RawPath := ''''\<rparr>"

text \<open>The unexported \<^verbatim>\<open>parse(rawURL, viaRequest)\<close> of \<^verbatim>\<open>net/url\<close>.\<close>

definition go_parse :: "string \<Rightarrow> bool \<Rightarrow> error + URL" where
  "go_parse rawURL viaRequest =
     (if \<not> plainReference rawURL then Inl (MalformedUrl ''outside the modelled references'')
      else if rawURL = '''' \<and> viaRequest then Inl (MalformedUrl ''empty url'')
      else case getScheme rawURL of
        Inl err \<Rightarrow> Inl err
      | Inr (scheme, rest) \<Rightarrow>
          let url = emptyURL\<lparr>Scheme := ToLower scheme\<rparr> in
          if \<not> HasPrefix rest ''/'' \<and> Scheme url \<noteq> '''' then Inr (url\<lparr>Opaque := rest\<rparr>)
          else if \<not> HasPrefix rest ''/'' \<and> viaRequest
          then Inl (MalformedUrl ''invalid URI for request'')
          else if \<not> HasPrefix rest ''/'' \<and>
                  CHR '':'' \<in> set (takeWhile (\<lambda>c. c \<noteq> CHR ''/'') rest)
          then Inl (MalformedUrl ''first path segment in URL cannot contain colon'')
          else if (Scheme url \<noteq> '''' \<or> \<not> viaRequest \<and> \<not> HasPrefix rest ''///'') \<and>
                  HasPrefix rest ''//''
          then (let authority = takeWhile (\<lambda>c. c \<noteq> CHR ''/'') (drop 2 rest);
                    rest' = dropWhile (\<lambda>c. c \<noteq> CHR ''/'') (drop 2 rest)
                in case parseHost authority of
                     Inl err \<Rightarrow> Inl err
                   | Inr host \<Rightarrow> Inr (setPath (url\<lparr>Host := host\<rparr>) rest'))
          else if Scheme url \<noteq> '''' \<and> HasPrefix rest ''/''
          then Inr (setPath (url\<lparr>OmitHost := True\<rparr>) rest)
          else Inr (setPath url rest))"

definition go_Parse :: "string \<Rightarrow> error + URL" where
  "go_Parse rawURL = go_parse rawURL False"

definition go_ParseRequestURI :: "string \<Rightarrow> error + URL" where
  "go_ParseRequestURI rawURL = go_parse rawURL True"

definition EscapedPath :: "URL \<Rightarrow> string" where
  "EscapedPath u = Path u"

text \<open>The method \<^verbatim>\<open>String\<close>; \<open>buf1\<close>, \<open>buf2\<close> and \<open>buf3\<close> are the buffer as it grows.\<close>

definition go_String :: "URL \<Rightarrow> string" where
  "go_String u =
     (let buf0 = (if Scheme u \<noteq> '''' then Scheme u @ '':'' else '''') in
      (if Opaque u \<noteq> '''' then buf0 @ Opaque u
       else
         let buf1 = buf0 @
               (if Scheme u \<noteq> '''' \<or> Host u \<noteq> '''' \<or> User u \<noteq> None
                then (if OmitHost u \<and> Host u = '''' \<and> User u = None then ''''
                      else (if Host u \<noteq> '''' \<or> Path u \<noteq> '''' \<or> User u \<noteq> None
                            then ''//'' else '''')
                           @ (case User u of None \<Rightarrow> '''' | Some ui \<Rightarrow> ui @ ''@'')
                           @ Host u)
                else '''');
             path = EscapedPath u;
             buf2 = buf1 @ (if path \<noteq> '''' \<and> hd path \<noteq> CHR ''/'' \<and> Host u \<noteq> ''''
                            then ''/'' else '''');
             buf3 = buf2 @ (if buf2 = '''' \<and>
                               CHR '':'' \<in> set (takeWhile (\<lambda>c. c \<noteq> CHR ''/'') path)
                            then ''./'' else '''')
         in buf3 @ path)
      @ (if ForceQuery u \<or> RawQuery u \<noteq> '''' then ''?'' @ RawQuery u else '''')
      @ (if Fragment u \<noteq> '''' then ''#'' @ Fragment u else ''''))"

text \<open>\<open>Split s []\<close> is \<^verbatim>\<open>strings.Split(s, "/")\<close>.\<close>

fun Split :: "string \<Rightarrow> string \<Rightarrow> string list" where
  "Split [] cur = [cur]"
| "Split (c # cs) cur = (if c = CHR ''/'' then cur # Split cs [] else Split cs (cur @ [c]))"

text \<open>
  \<^verbatim>\<open>resolvePath\<close>: the loop over the elements of the joined path, with the builder
  \<^verbatim>\<open>dst\<close> and the flag \<^verbatim>\<open>first\<close>.
\<close>

fun resolvePath_loop :: "string list \<Rightarrow> string \<Rightarrow> bool \<Rightarrow> string" where
  "resolvePath_loop [] dst first = dst"
| "resolvePath_loop (elem # remaining) dst first =
     (if elem = ''.'' then resolvePath_loop remaining dst False
      else if elem = ''..''
      then (let str = drop 1 dst in
            if CHR ''/'' \<in> set str
            then resolvePath_loop remaining (''/'' @ beforeLast CHR ''/'' str) first
            else resolvePath_loop remaining ''/'' True)
      else resolvePath_loop remaining (dst @ (if first then '''' else ''/'') @ elem) False)"

definition resolvePath :: "string \<Rightarrow> string \<Rightarrow> string" where
  "resolvePath base ref =
     (let full = (if ref = '''' then base
                  else if hd ref \<noteq> CHR ''/''
                  then (if CHR ''/'' \<in> set base then beforeLast CHR ''/'' base @ ''/'' else '''')
                       @ ref
                  else ref)
      in if full = '''' then ''''
         else let elems = Split full [];
                  dst = resolvePath_loop elems ''/'' True;
                  r = (if last elems = ''.'' \<or> last elems = ''..'' then dst @ ''/'' else dst)
              in if length r > 1 \<and> r ! 1 = CHR ''/'' then drop 1 r else r)"

definition go_ResolveReference :: "URL \<Rightarrow> URL \<Rightarrow> URL" where
  "go_ResolveReference u ref =
     (let url = (if Scheme ref = '''' then ref\<lparr>Scheme := Scheme u\<rparr> else ref) in
      if Scheme ref \<noteq> '''' \<or> Host ref \<noteq> '''' \<or> User ref \<noteq> None
      then setPath url (resolvePath (EscapedPath ref) '''')
      else if Opaque ref \<noteq> ''''
      then url\<lparr>User := None, Host := '''', Path := ''''\<rparr>
      else
        let url1 = (if Path ref = '''' \<and> \<not> ForceQuery ref \<and> RawQuery ref = ''''
                    then (if Fragment ref = ''''
                          then url\<lparr>RawQuery := RawQuery u, Fragment := Fragment u,
                                   RawFragment := RawFragment u\<rparr>
                          else url\<lparr>RawQuery := RawQuery u\<rparr>)
                    else url)
        in if Path ref = '''' \<and> Opaque u \<noteq> ''''
           then url1\<lparr>Opaque := Opaque u, User := None, Host := '''', Path := ''''\<rparr>
           else setPath (url1\<lparr>Host := Host u, User := User u\<rparr>)
                  (resolvePath (EscapedPath u) (EscapedPath ref)))"

text \<open>
  \<^verbatim>\<open>path.Clean\<close> on the elements of the path: \<open>out\<close> holds the elements kept so far,
  a \<^verbatim>\<open>..\<close> removes the last one when that is not itself a kept \<^verbatim>\<open>..\<close>, and is kept only
  in an unrooted path.  \<open>joinElems\<close> is \<^verbatim>\<open>strings.Join(elems, "/")\<close>.
\<close>

fun Clean_loop :: "bool \<Rightarrow> string list \<Rightarrow> string list \<Rightarrow> string list" where
  "Clean_loop rooted [] out = out"
| "Clean_loop rooted (elem # rest) out =
     (if elem = '''' \<or> elem = ''.'' then Clean_loop rooted rest out
      else if elem = ''..''
      then (if out \<noteq> [] \<and> last out \<noteq> ''..'' then Clean_loop rooted rest (butlast out)
            else if \<not> rooted then Clean_loop rooted rest (out @ [''..''])
            else Clean_loop rooted rest out)
      else Clean_loop rooted rest (out @ [elem]))"

fun joinElems :: "string list \<Rightarrow> string" where
  "joinElems [] = ''''"
| "joinElems [e] = e"
| "joinElems (e # es) = e @ ''/'' @ joinElems es"

definition Clean :: "string \<Rightarrow> string" where
  "Clean path =
     (if path = '''' then ''.''
      else let rooted = (hd path = CHR ''/'');
               out = joinElems (Clean_loop rooted (Split path []) [])
           in if rooted then ''/'' @ out else if out = '''' then ''.'' else out)"

definition path_Join :: "string list \<Rightarrow> string" where
  "path_Join elem =
     (if concat elem = '''' then ''''
      else Clean (joinElems (dropWhile (\<lambda>e. e = '''') elem)))"

text \<open>The method \<^verbatim>\<open>(*URL).JoinPath\<close> and the function \<^verbatim>\<open>url.JoinPath\<close>.\<close>

definition URL_JoinPath :: "URL \<Rightarrow> string list \<Rightarrow> URL" where
  "URL_JoinPath u elem =
     (let relative = \<not> HasPrefix (EscapedPath u) ''/'';
          elems = (if relative then ''/'' @ EscapedPath u else EscapedPath u) # elem;
          p = (if relative then drop 1 (path_Join elems) else path_Join elems);
          p' = (if HasSuffix (last elems) ''/'' \<and> \<not> HasSuffix p ''/'' then p @ ''/'' else p)
      in setPath u p')"

definition go_JoinPath :: "string \<Rightarrow> string list \<Rightarrow> error + string" where
  "go_JoinPath base elem =
     (case go_Parse base of
        Inl err \<Rightarrow> Inl err
      | Inr url \<Rightarrow> Inr (go_String (URL_JoinPath url elem)))"

definition go_Port :: "URL \<Rightarrow> string" where
  "go_Port u =
     (if CHR '':'' \<in> set (Host u) \<and> validOptionalPort (CHR '':'' # afterLast CHR '':'' (Host u))
      then afterLast CHR '':'' (Host u)
      else '''')"

definition goUrl :: net_url where
  "goUrl =
     \<lparr>url_Parse = go_Parse, url_ParseRequestURI = go_ParseRequestURI,
      url_JoinPath = go_JoinPath, URL_String = go_String,
      URL_ResolveReference = go_ResolveReference, URL_Port = go_Port\<rparr>"

text \<open>The locations of the examples below, as \<^verbatim>\<open>url.Parse\<close> yields them.\<close>

definition httpsUrl :: "string \<Rightarrow> string \<Rightarrow> URL" where
  "httpsUrl host path = emptyURL\<lparr>Scheme := ''https'', Host := host, Path := path\<rparr>"

definition fileUrl :: "string \<Rightarrow> URL" where
  "fileUrl path = emptyURL\<lparr>Scheme := ''file'', Path := path\<rparr>"

section \<open>Example maps\<close>

text \<open>
  The map of the repository's test \<^verbatim>\<open>TestResolveImportMap\<close>: declared at
  \<^verbatim>\<open>https://site.com\<close>, for which \<^verbatim>\<open>New\<close> sets the root \<^verbatim>\<open>https://site.com/\<close>.
\<close>

definition testMap :: importMap where
  "testMap =
     \<lparr>im_imports = Some [(''test'', ''/test-map.js''),
                         (''https://another.com/url.js'', ''/url-map.js'')],
      im_scopes = Some [(''https://another.com/'', Some [(''/url.js'', ''/scoped-map.js'')])],
      im_integrity = None,
      im_mapUrl = Some (httpsUrl ''site.com'' ''''),
      im_rootUrl = Some (httpsUrl ''site.com'' ''/'')\<rparr>"

text \<open>
  A map declared at \<^verbatim>\<open>https://site.com\<close> (root \<^verbatim>\<open>https://site.com/\<close>) with two nested
  scopes given relative to the root and one scope of another site; the two nested scopes
  map the same specifiers to different files, and the deeper one comes first in the table.
\<close>

definition scopedMap :: importMap where
  "scopedMap =
     \<lparr>im_imports = Some [(''x'', ''/top.js'')],
      im_scopes = Some [(''/lib/deep/'', Some [(''x'', ''/deep.js''),
                                             (''/lib/deep/y.js'', ''/deep-y.js'')]),
                        (''https://another.com/'', Some [(''x'', ''/another.js'')]),
                        (''/lib/'', Some [(''x'', ''/shallow.js''),
                                        (''/lib/deep/y.js'', ''/shallow-y.js'')])],
      im_integrity = None,
      im_mapUrl = Some (httpsUrl ''site.com'' ''''),
      im_rootUrl = Some (httpsUrl ''site.com'' ''/'')\<rparr>"

text \<open>A map that sends the prefix \<^verbatim>\<open>app/\<close> to the root of its site.\<close>

definition slashMap :: importMap where
  "slashMap =
     \<lparr>im_imports = Some [(''app/'', ''/'')], im_scopes = Some [], im_integrity = Some [],
      im_mapUrl = Some (httpsUrl ''site.com'' ''''),
      im_rootUrl = Some (httpsUrl ''site.com'' ''/'')\<rparr>"

text \<open>A map with one integrity entry, for the file \<^verbatim>\<open>bc.js\<close>.\<close>

definition integrityMap :: importMap where
  "integrityMap =
     \<lparr>im_imports = Some [], im_scopes = Some [],
      im_integrity = Some [(''bc.js'', ''sha384-x'')],
      im_mapUrl = Some (httpsUrl ''site.com'' ''''),
      im_rootUrl = Some (httpsUrl ''site.com'' ''/'')\<rparr>"

text \<open>
  A map declared at \<^verbatim>\<open>https://a.com/\<close> whose one import is relative to the map, and
  the location \<^verbatim>\<open>https://b.com/\<close> it is moved to.
\<close>

definition mapAtA :: importMap where
  "mapAtA =
     \<lparr>im_imports = Some [(''x'', ''./y.js'')], im_scopes = Some [], im_integrity = Some [],
      im_mapUrl = Some (httpsUrl ''a.com'' ''/''),
      im_rootUrl = Some (httpsUrl ''a.com'' ''/'')\<rparr>"

text \<open>
  A map declared at \<^verbatim>\<open>https://a.com/\<close> whose import and integrity entry name a file of
  another site, stored as the absolute location it already is.
\<close>

definition cdnMap :: importMap where
  "cdnMap =
     \<lparr>im_imports = Some [(''x'', ''https://cdn.com/y.js'')], im_scopes = Some [],
      im_integrity = Some [(''https://cdn.com/y.js'', ''sha384-abc'')],
      im_mapUrl = Some (httpsUrl ''a.com'' ''/''),
      im_rootUrl = Some (httpsUrl ''a.com'' ''/'')\<rparr>"

text \<open>
  A map declared at \<^verbatim>\<open>https://a.com/\<close> whose one import names a file of the site
  \<^verbatim>\<open>https://b.com/\<close>.
\<close>

definition foreignMap :: importMap where
  "foreignMap =
     \<lparr>im_imports = Some [(''x'', ''https://b.com/z.js'')], im_scopes = Some [],
      im_integrity = Some [],
      im_mapUrl = Some (httpsUrl ''a.com'' ''/''),
      im_rootUrl = Some (httpsUrl ''a.com'' ''/'')\<rparr>"

text \<open>
  A map declared at \<^verbatim>\<open>https://site.com/app/\<close>, with the root \<^verbatim>\<open>https://site.com/\<close> that
  \<^verbatim>\<open>New\<close> derives for it, and a map with no table at all.
\<close>

definition appMap :: importMap where
  "appMap =
     \<lparr>im_imports = Some [(''x'', ''./y.js'')], im_scopes = Some [], im_integrity = Some [],
      im_mapUrl = Some (httpsUrl ''site.com'' ''/app/''),
      im_rootUrl = Some (httpsUrl ''site.com'' ''/'')\<rparr>"

definition noTables :: importMap where
  "noTables =
     \<lparr>im_imports = None, im_scopes = None, im_integrity = None, im_mapUrl = None,
      im_rootUrl = None\<rparr>"

chapter \<open>Properties\<close>

section \<open>Map match\<close>

lemma HasSuffix_nonempty: "HasSuffix k [x] \<Longrightarrow> k \<noteq> []"
  by (auto simp: HasSuffix_def)

lemma prefixKeyOf_nonempty: "prefixKeyOf c k \<Longrightarrow> 0 < length k"
  by (auto simp: prefixKeyOf_def dest: HasSuffix_nonempty)

lemma scan_step:
  "getMapMatch_scan c (k # ks) cur =
     (if prefixKeyOf c k \<and> (cur = '''' \<or> length cur < length k)
      then getMapMatch_scan c ks k else getMapMatch_scan c ks cur)"
  by (auto simp: prefixKeyOf_def Let_def butlast_conv_take)

lemma scan_result:
  "getMapMatch_scan c ks cur = cur \<or>
   (getMapMatch_scan c ks cur \<in> set ks \<and> prefixKeyOf c (getMapMatch_scan c ks cur))"
proof (induction ks arbitrary: cur)
  case Nil
  show ?case by simp
next
  case (Cons k ks)
  show ?case
  proof (cases "prefixKeyOf c k \<and> (cur = '''' \<or> length cur < length k)")
    case True
    have step: "getMapMatch_scan c (k # ks) cur = getMapMatch_scan c ks k"
      by (subst scan_step) (rule if_P [OF True])
    from Cons.IH [of k] True show ?thesis
      unfolding step by auto
  next
    case False
    have step: "getMapMatch_scan c (k # ks) cur = getMapMatch_scan c ks cur"
      by (subst scan_step) (rule if_not_P [OF False])
    from Cons.IH [of cur] show ?thesis
      unfolding step by auto
  qed
qed

lemma scan_grows: "length cur \<le> length (getMapMatch_scan c ks cur)"
proof (induction ks arbitrary: cur)
  case Nil
  show ?case by simp
next
  case (Cons k ks)
  show ?case
  proof (cases "prefixKeyOf c k \<and> (cur = '''' \<or> length cur < length k)")
    case True
    have step: "getMapMatch_scan c (k # ks) cur = getMapMatch_scan c ks k"
      by (subst scan_step) (rule if_P [OF True])
    have "length cur \<le> length k" using True by auto
    with Cons.IH [of k] show ?thesis unfolding step by simp
  next
    case False
    have step: "getMapMatch_scan c (k # ks) cur = getMapMatch_scan c ks cur"
      by (subst scan_step) (rule if_not_P [OF False])
    from Cons.IH [of cur] show ?thesis unfolding step .
  qed
qed

lemma scan_longest:
  "k \<in> set ks \<Longrightarrow> prefixKeyOf c k \<Longrightarrow> length k \<le> length (getMapMatch_scan c ks cur)"
proof (induction ks arbitrary: cur)
  case Nil
  then show ?case by simp
next
  case (Cons a ks)
  show ?case
  proof (cases "prefixKeyOf c a \<and> (cur = '''' \<or> length cur < length a)")
    case True
    have step: "getMapMatch_scan c (a # ks) cur = getMapMatch_scan c ks a"
      by (subst scan_step) (rule if_P [OF True])
    show ?thesis
    proof (cases "k = a")
      case True
      then show ?thesis unfolding step using scan_grows [of a c ks] by simp
    next
      case False
      with Cons.prems have "k \<in> set ks" by simp
      from Cons.IH [OF this Cons.prems(2), of a] show ?thesis unfolding step .
    qed
  next
    case False
    have step: "getMapMatch_scan c (a # ks) cur = getMapMatch_scan c ks cur"
      by (subst scan_step) (rule if_not_P [OF False])
    show ?thesis
    proof (cases "k = a")
      case True
      with False Cons.prems have "cur \<noteq> ''''" and "length a \<le> length cur" by auto
      with True scan_grows [of cur c ks] show ?thesis unfolding step by simp
    next
      case False
      with Cons.prems have "k \<in> set ks" by simp
      from Cons.IH [OF this Cons.prems(2), of cur] show ?thesis unfolding step .
    qed
  qed
qed

text \<open>
  Claim C3.  For every table \<open>T\<close> and candidate \<open>c\<close>: when \<open>T\<close> has the exact key \<open>c\<close>
  the map match is \<open>c\<close>, whatever prefix keys \<open>T\<close> holds; otherwise only the keys that
  end in \<^verbatim>\<open>/\<close> or \<^verbatim>\<open>*\<close> and whose stripped form is a prefix of \<open>c\<close> are candidates (both
  sigils alike), the match is one of them of greatest length, and it is the empty
  string (no match) when there is none.
\<close>

theorem getMapMatch_exact_else_longest_prefix_key:
  "(mapHas T c \<longrightarrow> getMapMatch c T = c) \<and>
   (\<not> mapHas T c \<longrightarrow>
      ((\<forall>k \<in> set (mapKeys T). \<not> prefixKeyOf c k) \<longrightarrow> getMapMatch c T = '''') \<and>
      ((\<exists>k \<in> set (mapKeys T). prefixKeyOf c k) \<longrightarrow>
          getMapMatch c T \<in> set (mapKeys T) \<and> prefixKeyOf c (getMapMatch c T) \<and>
          (\<forall>k \<in> set (mapKeys T). prefixKeyOf c k \<longrightarrow> length k \<le> length (getMapMatch c T))))"
proof (intro conjI impI)
  assume "mapHas T c"
  then show "getMapMatch c T = c" by (simp add: getMapMatch_def)
next
  assume no: "\<not> mapHas T c" and none: "\<forall>k \<in> set (mapKeys T). \<not> prefixKeyOf c k"
  from scan_result [of c "mapKeys T" "''''"] none
  show "getMapMatch c T = ''''" using no by (auto simp: getMapMatch_def)
next
  assume no: "\<not> mapHas T c" and some: "\<exists>k \<in> set (mapKeys T). prefixKeyOf c k"
  let ?r = "getMapMatch_scan c (mapKeys T) ''''"
  have r: "getMapMatch c T = ?r" using no by (simp add: getMapMatch_def)
  from some obtain k where k: "k \<in> set (mapKeys T)" "prefixKeyOf c k" by blast
  have "0 < length k" using k(2) by (rule prefixKeyOf_nonempty)
  with scan_longest [OF k, of "''''"] have "?r \<noteq> ''''" by auto
  with scan_result [of c "mapKeys T" "''''"]
  have "?r \<in> set (mapKeys T) \<and> prefixKeyOf c ?r" by auto
  then show "getMapMatch c T \<in> set (mapKeys T)" and "prefixKeyOf c (getMapMatch c T)"
    unfolding r by simp_all
  show "\<forall>k \<in> set (mapKeys T). prefixKeyOf c k \<longrightarrow> length k \<le> length (getMapMatch c T)"
    unfolding r using scan_longest by blast
qed

theorem getMapMatch_exact_else_longest_prefix_key_witness:
  "mapHas (Some [(''a/'', 1::nat), (''a/b*'', 2), (''a/b/c'', 3)]) ''a/b/c'' \<and>
   getMapMatch ''a/b/c'' (Some [(''a/'', 1::nat), (''a/b*'', 2), (''a/b/c'', 3)]) = ''a/b/c'' \<and>
   \<not> mapHas (Some [(''a/'', 1::nat), (''a/b*'', 2), (''a/b/c'', 3)]) ''a/b/x'' \<and>
   prefixKeyOf ''a/b/x'' ''a/'' \<and> prefixKeyOf ''a/b/x'' ''a/b*'' \<and>
   getMapMatch ''a/b/x'' (Some [(''a/'', 1::nat), (''a/b*'', 2), (''a/b/c'', 3)]) = ''a/b*'' \<and>
   \<not> mapHas (Some [(''x/'', 1::nat)]) ''a'' \<and>
   getMapMatch ''a'' (Some [(''x/'', 1::nat)]) = ''''"
  using getMapMatch_exact_else_longest_prefix_key
          [of "Some [(''a/'', 1::nat), (''a/b*'', 2), (''a/b/c'', 3)]" "''a/b/c''"]
        getMapMatch_exact_else_longest_prefix_key
          [of "Some [(''a/'', 1::nat), (''a/b*'', 2), (''a/b/c'', 3)]" "''a/b/x''"]
        getMapMatch_exact_else_longest_prefix_key
          [of "Some [(''x/'', 1::nat)]" "''a''"]
  by (simp add: mapHas_def mapGet_def mapKeys_def entries_def getMapMatch_def
        prefixKeyOf_def HasPrefix_def HasSuffix_def)

section \<open>The reference instance against the repository's test\<close>

text \<open>
  The four resolutions \<^verbatim>\<open>TestResolveImportMap\<close> (\<^verbatim>\<open>importmap_test.go\<close>) expects, computed
  by the embedding over \<open>goUrl\<close>.
\<close>

lemma testMap_resolutions:
  "ResolveWithParent goUrl testMap ''test'' (Some (httpsUrl ''site.com'' ''''))
     = Inr ''https://site.com/test-map.js'' \<and>
   ResolveWithParent goUrl testMap ''/url.js'' (Some (httpsUrl ''another.com'' ''/''))
     = Inr ''https://site.com/url-map.js'' \<and>
   ResolveWithParent goUrl testMap ''https://site.com/url.js'' (Some (httpsUrl ''another.com'' ''/x''))
     = Inr ''https://site.com/scoped-map.js'' \<and>
   ResolveWithParent goUrl testMap ''https://another.com/url.js'' (Some (httpsUrl ''site.com'' ''''))
     = Inr ''https://site.com/url-map.js''"
  by code_simp

text \<open>
  The example maps are maps \<^verbatim>\<open>New\<close> builds: from the tables and the declaring location
  alone, the root being the one \<^verbatim>\<open>New\<close> derives.
\<close>

lemma New_builds_the_examples:
  "New goUrl getwd
     \<lparr>opt_Map = \<lparr>Imports = im_imports testMap, Scopes = im_scopes testMap, Integrity = None\<rparr>,
      opt_MapUrl = Some (httpsUrl ''site.com'' ''''), opt_RootUrl = None\<rparr> = Inr testMap \<and>
   New goUrl getwd
     \<lparr>opt_Map = \<lparr>Imports = Some [(''app/'', ''/'')], Scopes = Some [], Integrity = Some []\<rparr>,
      opt_MapUrl = Some (httpsUrl ''site.com'' ''''), opt_RootUrl = None\<rparr> = Inr slashMap \<and>
   New goUrl getwd
     \<lparr>opt_Map = \<lparr>Imports = Some [], Scopes = Some [],
                  Integrity = Some [(''bc.js'', ''sha384-x'')]\<rparr>,
      opt_MapUrl = Some (httpsUrl ''site.com'' ''''), opt_RootUrl = None\<rparr> = Inr integrityMap \<and>
   New goUrl getwd
     \<lparr>opt_Map = \<lparr>Imports = Some [(''x'', ''./y.js'')], Scopes = Some [], Integrity = Some []\<rparr>,
      opt_MapUrl = Some (httpsUrl ''a.com'' ''/''), opt_RootUrl = None\<rparr> = Inr mapAtA \<and>
   New goUrl getwd
     \<lparr>opt_Map = \<lparr>Imports = Some [(''x'', ''https://cdn.com/y.js'')], Scopes = Some [],
                  Integrity = Some [(''https://cdn.com/y.js'', ''sha384-abc'')]\<rparr>,
      opt_MapUrl = Some (httpsUrl ''a.com'' ''/''), opt_RootUrl = None\<rparr> = Inr cdnMap \<and>
   New goUrl getwd
     \<lparr>opt_Map = \<lparr>Imports = Some [(''x'', ''https://b.com/z.js'')], Scopes = Some [],
                  Integrity = Some []\<rparr>,
      opt_MapUrl = Some (httpsUrl ''a.com'' ''/''), opt_RootUrl = None\<rparr> = Inr foreignMap \<and>
   New goUrl getwd
     \<lparr>opt_Map = \<lparr>Imports = Some [(''x'', ''./y.js'')], Scopes = Some [], Integrity = Some []\<rparr>,
      opt_MapUrl = Some (httpsUrl ''site.com'' ''/app/''), opt_RootUrl = None\<rparr> = Inr appMap \<and>
   go_Parse ''https://site.com'' = Inr (httpsUrl ''site.com'' '''') \<and>
   go_Parse ''https://a.com/'' = Inr (httpsUrl ''a.com'' ''/'') \<and>
   go_Parse ''https://b.com/'' = Inr (httpsUrl ''b.com'' ''/'') \<and>
   go_Parse ''https://site.com/app/'' = Inr (httpsUrl ''site.com'' ''/app/'') \<and>
   go_Parse ''https://another.com/x'' = Inr (httpsUrl ''another.com'' ''/x'') \<and>
   go_Parse ''file:///test/a/'' = Inr (fileUrl ''/test/a/'') \<and>
   go_Parse ''file:///test/a/b/'' = Inr (fileUrl ''/test/a/b/'')"
  by (simp add: New_def testMap_def slashMap_def integrityMap_def mapAtA_def cdnMap_def
        foreignMap_def appMap_def) code_simp

section \<open>Scope matches\<close>

lemma candidates_set:
  "getScopeMatches_candidates lib ks mapUrl rootUrl = Inr cs \<Longrightarrow>
   set cs = {(scope, scopeUrl). scope \<in> set ks \<and> resolve lib scope mapUrl rootUrl = Inr scopeUrl}"
proof (induction ks arbitrary: cs)
  case Nil
  then show ?case by simp
next
  case (Cons k ks)
  from Cons.prems obtain u cs' where
    u: "resolve lib k mapUrl rootUrl = Inr u" and
    cs': "getScopeMatches_candidates lib ks mapUrl rootUrl = Inr cs'" and
    cs: "cs = (k, u) # cs'"
    by (auto split: sum.splits)
  from Cons.IH [OF cs'] u show ?case unfolding cs by auto
qed

lemma candidates_total:
  "\<forall>scope \<in> set ks. \<exists>scopeUrl. resolve lib scope mapUrl rootUrl = Inr scopeUrl \<Longrightarrow>
   \<exists>cs. getScopeMatches_candidates lib ks mapUrl rootUrl = Inr cs"
proof (induction ks)
  case Nil
  show ?case by simp
next
  case (Cons k ks)
  then obtain u where u: "resolve lib k mapUrl rootUrl = Inr u" by auto
  from Cons obtain cs where "getScopeMatches_candidates lib ks mapUrl rootUrl = Inr cs" by auto
  with u show ?case by simp
qed

text \<open>
  What \<^verbatim>\<open>getScopeMatches\<close> returns.  When every scope key resolves, the call returns, and
  the scopes returned are exactly those whose resolved location equals the parent
  location, or ends in \<^verbatim>\<open>/\<close> and is a string-prefix of it, in ascending order of the length
  of the resolved location.
\<close>

lemma getScopeMatches_covering_sorted:
  assumes "\<forall>scope \<in> set (mapKeys scopes).
             \<exists>scopeUrl. resolve lib scope mapUrl rootUrl = Inr scopeUrl"
  shows "\<exists>scopeMatches.
           getScopeMatches lib parentUrl scopes mapUrl rootUrl = Inr scopeMatches \<and>
           set scopeMatches =
             {(scope, scopeUrl). scope \<in> set (mapKeys scopes) \<and>
                resolve lib scope mapUrl rootUrl = Inr scopeUrl \<and>
                scopeCovers scopeUrl parentUrl} \<and>
           sorted (map (\<lambda>scopeMatch. length (snd scopeMatch)) scopeMatches)"
proof -
  from candidates_total [OF assms] obtain cs where
    cs: "getScopeMatches_candidates lib (mapKeys scopes) mapUrl rootUrl = Inr cs" by blast
  let ?keep = "\<lambda>candidate. snd candidate = parentUrl \<or>
                 (HasSuffix (snd candidate) ''/'' \<and> HasPrefix parentUrl (snd candidate))"
  let ?ms = "filter ?keep (sort_key (\<lambda>candidate. length (snd candidate)) cs)"
  have res: "getScopeMatches lib parentUrl scopes mapUrl rootUrl = Inr ?ms"
    by (simp add: getScopeMatches_def cs)
  have "set ?ms = {c \<in> set cs. ?keep c}" by auto
  also have "\<dots> = {(scope, scopeUrl). scope \<in> set (mapKeys scopes) \<and>
                resolve lib scope mapUrl rootUrl = Inr scopeUrl \<and>
                scopeCovers scopeUrl parentUrl}"
    unfolding candidates_set [OF cs] by (auto simp: scopeCovers_def)
  finally have set_eq: "set ?ms = {(scope, scopeUrl). scope \<in> set (mapKeys scopes) \<and>
                resolve lib scope mapUrl rootUrl = Inr scopeUrl \<and>
                scopeCovers scopeUrl parentUrl}" .
  have "sorted (map (\<lambda>scopeMatch. length (snd scopeMatch)) ?ms)"
    by (rule sorted_filter) (rule sorted_sort_key)
  with res set_eq show ?thesis by blast
qed

subsection \<open>The loop over the scope matches\<close>

lemma matchWithRetries_plain:
  "matchWithRetries lib i False specifier table = Inr (getMapMatch specifier table, specifier)"
  by (simp add: matchWithRetries_def)

lemma scopes_loop_plain:
  "\<forall>scopeMatch \<in> set scopeMatches.
      getMapMatch specifier (scopeAt (im_scopes i) (fst scopeMatch)) = '''' \<Longrightarrow>
   ResolveWithParent_scopes lib i False scopeMatches specifier = Inr specifier"
  by (induction scopeMatches) (simp_all add: matchWithRetries_plain)

text \<open>Scope matches that yield no match are passed over, in the order of the list.\<close>

lemma scopes_loop_append:
  "ResolveWithParent_scopes lib i nonPlain before specifier = Inr working \<Longrightarrow>
   ResolveWithParent_scopes lib i nonPlain (before @ rest) specifier
     = ResolveWithParent_scopes lib i nonPlain rest working"
proof (induction before arbitrary: specifier)
  case Nil
  then show ?case by simp
next
  case (Cons scopeMatch before)
  from Cons.prems obtain specifier' where
    step: "matchWithRetries lib i nonPlain specifier (scopeAt (im_scopes i) (fst scopeMatch))
             = Inr ('''', specifier')" and
    rest: "ResolveWithParent_scopes lib i nonPlain before specifier' = Inr working"
    by (auto split: sum.splits prod.splits if_splits)
  from Cons.IH [OF rest] step show ?case by simp
qed

text \<open>The first scope match whose table yields a match ends the loop with its target.\<close>

lemma scopes_loop_first_match:
  assumes "ResolveWithParent_scopes lib i nonPlain before specifier = Inr working"
      and "matchWithRetries lib i nonPlain working (scopeAt (im_scopes i) (fst scopeMatch))
             = Inr (mapMatch, working')"
      and "mapMatch \<noteq> ''''"
  shows "ResolveWithParent_scopes lib i nonPlain (before @ scopeMatch # after) specifier
           = Inl (resolveMatched lib i (scopeAt (im_scopes i) (fst scopeMatch)) mapMatch working')"
  using scopes_loop_append [OF assms(1), of "scopeMatch # after"] assms(2,3) by simp

text \<open>
  Claim C4.  Let the parent location resolve to its canonical form and let every scope key
  resolve under the map's own \<^verbatim>\<open>mapUrl\<close> and \<^verbatim>\<open>rootUrl\<close>.  Then \<^verbatim>\<open>ResolveWithParent\<close>
  works on a list of scope matches that holds exactly the scopes whose resolved location
  equals the canonical parent location, or ends in \<^verbatim>\<open>/\<close> and is a string-prefix of it, in
  ascending order of the length of the resolved location; and the first scope of that
  list whose table yields a match decides the result, whatever the scopes after it map.
  For a plain specifier, the first scope is the first one whose table has a map match for
  the specifier.  For a specifier that is not plain, the scopes before it are those the
  loop passes over, starting from the specifier resolved against the parent, and the match
  is the one found with the retries of the code.
\<close>

theorem ResolveWithParent_first_covering_scope_decides:
  assumes parent: "resolve lib (URL_String lib parent) (im_mapUrl i) (im_rootUrl i) = Inr parentUrlRaw"
      and keys: "\<forall>scope \<in> set (mapKeys (im_scopes i)).
                   \<exists>scopeUrl. resolve lib scope (im_mapUrl i) (im_rootUrl i) = Inr scopeUrl"
  shows "\<exists>scopeMatches.
           getScopeMatches lib parentUrlRaw (im_scopes i) (im_mapUrl i) (im_rootUrl i)
             = Inr scopeMatches \<and>
           set scopeMatches =
             {(scope, scopeUrl). scope \<in> set (mapKeys (im_scopes i)) \<and>
                resolve lib scope (im_mapUrl i) (im_rootUrl i) = Inr scopeUrl \<and>
                scopeCovers scopeUrl parentUrlRaw} \<and>
           sorted (map (\<lambda>scopeMatch. length (snd scopeMatch)) scopeMatches) \<and>
           (\<forall>before scopeMatch after.
              scopeMatches = before @ scopeMatch # after \<longrightarrow>
              (isPlain lib specifier \<longrightarrow>
               (\<forall>earlier \<in> set before.
                   getMapMatch specifier (scopeAt (im_scopes i) (fst earlier)) = '''') \<longrightarrow>
               getMapMatch specifier (scopeAt (im_scopes i) (fst scopeMatch)) \<noteq> '''' \<longrightarrow>
               ResolveWithParent lib i specifier (Some parent)
                 = resolveMatched lib i (scopeAt (im_scopes i) (fst scopeMatch))
                     (getMapMatch specifier (scopeAt (im_scopes i) (fst scopeMatch))) specifier) \<and>
              (\<forall>u working mapMatch working'.
                 \<not> isPlain lib specifier \<longrightarrow>
                 url_Parse lib specifier = Inr u \<longrightarrow>
                 ResolveWithParent_scopes lib i True before
                     (URL_String lib (URL_ResolveReference lib parent u)) = Inr working \<longrightarrow>
                 matchWithRetries lib i True working (scopeAt (im_scopes i) (fst scopeMatch))
                   = Inr (mapMatch, working') \<longrightarrow>
                 mapMatch \<noteq> '''' \<longrightarrow>
                 ResolveWithParent lib i specifier (Some parent)
                   = resolveMatched lib i (scopeAt (im_scopes i) (fst scopeMatch)) mapMatch working'))"
proof -
  from getScopeMatches_covering_sorted [OF keys, of parentUrlRaw]
  obtain scopeMatches where
    sm: "getScopeMatches lib parentUrlRaw (im_scopes i) (im_mapUrl i) (im_rootUrl i)
           = Inr scopeMatches" and
    covering: "set scopeMatches =
             {(scope, scopeUrl). scope \<in> set (mapKeys (im_scopes i)) \<and>
                resolve lib scope (im_mapUrl i) (im_rootUrl i) = Inr scopeUrl \<and>
                scopeCovers scopeUrl parentUrlRaw}" and
    ascending: "sorted (map (\<lambda>scopeMatch. length (snd scopeMatch)) scopeMatches)"
    by blast
  have decides:
    "(isPlain lib specifier \<longrightarrow>
       (\<forall>earlier \<in> set before.
           getMapMatch specifier (scopeAt (im_scopes i) (fst earlier)) = '''') \<longrightarrow>
       getMapMatch specifier (scopeAt (im_scopes i) (fst scopeMatch)) \<noteq> '''' \<longrightarrow>
       ResolveWithParent lib i specifier (Some parent)
         = resolveMatched lib i (scopeAt (im_scopes i) (fst scopeMatch))
             (getMapMatch specifier (scopeAt (im_scopes i) (fst scopeMatch))) specifier) \<and>
     (\<forall>u working mapMatch working'.
         \<not> isPlain lib specifier \<longrightarrow>
         url_Parse lib specifier = Inr u \<longrightarrow>
         ResolveWithParent_scopes lib i True before
             (URL_String lib (URL_ResolveReference lib parent u)) = Inr working \<longrightarrow>
         matchWithRetries lib i True working (scopeAt (im_scopes i) (fst scopeMatch))
           = Inr (mapMatch, working') \<longrightarrow>
         mapMatch \<noteq> '''' \<longrightarrow>
         ResolveWithParent lib i specifier (Some parent)
           = resolveMatched lib i (scopeAt (im_scopes i) (fst scopeMatch)) mapMatch working')"
    if split: "scopeMatches = before @ scopeMatch # after" for before scopeMatch after
  proof (intro conjI impI allI)
    assume plain: "isPlain lib specifier"
       and earlier: "\<forall>earlier \<in> set before.
                       getMapMatch specifier (scopeAt (im_scopes i) (fst earlier)) = ''''"
       and here: "getMapMatch specifier (scopeAt (im_scopes i) (fst scopeMatch)) \<noteq> ''''"
    have su: "specifierUrlOf lib specifier parent = Inr None"
      using plain by (simp add: specifierUrlOf_def)
    have loop: "ResolveWithParent_scopes lib i False (before @ scopeMatch # after) specifier
                  = Inl (resolveMatched lib i (scopeAt (im_scopes i) (fst scopeMatch))
                           (getMapMatch specifier (scopeAt (im_scopes i) (fst scopeMatch)))
                           specifier)"
      by (rule scopes_loop_first_match [OF scopes_loop_plain [OF earlier] matchWithRetries_plain here])
    show "ResolveWithParent lib i specifier (Some parent)
            = resolveMatched lib i (scopeAt (im_scopes i) (fst scopeMatch))
                (getMapMatch specifier (scopeAt (im_scopes i) (fst scopeMatch))) specifier"
      using loop by (simp add: ResolveWithParent_def parent su sm split)
  next
    fix u working mapMatch working'
    assume nonPlain: "\<not> isPlain lib specifier"
       and parsed: "url_Parse lib specifier = Inr u"
       and earlier: "ResolveWithParent_scopes lib i True before
                       (URL_String lib (URL_ResolveReference lib parent u)) = Inr working"
       and here: "matchWithRetries lib i True working (scopeAt (im_scopes i) (fst scopeMatch))
                    = Inr (mapMatch, working')"
       and found: "mapMatch \<noteq> ''''"
    have su: "specifierUrlOf lib specifier parent = Inr (Some (URL_ResolveReference lib parent u))"
      using nonPlain parsed by (simp add: specifierUrlOf_def)
    from scopes_loop_first_match [OF earlier here found, of after]
    show "ResolveWithParent lib i specifier (Some parent)
            = resolveMatched lib i (scopeAt (im_scopes i) (fst scopeMatch)) mapMatch working'"
      by (simp add: ResolveWithParent_def parent su sm split)
  qed
  from sm covering ascending decides show ?thesis by blast
qed

theorem ResolveWithParent_first_covering_scope_decides_witness:
  "resolve goUrl (URL_String goUrl (httpsUrl ''site.com'' ''/lib/deep/mod.js''))
       (im_mapUrl scopedMap) (im_rootUrl scopedMap) = Inr ''https://site.com/lib/deep/mod.js'' \<and>
   mapKeys (im_scopes scopedMap) = [''/lib/deep/'', ''https://another.com/'', ''/lib/''] \<and>
   map (\<lambda>scope. resolve goUrl scope (im_mapUrl scopedMap) (im_rootUrl scopedMap))
       (mapKeys (im_scopes scopedMap))
     = [Inr ''https://site.com/lib/deep/'', Inr ''https://another.com/'',
        Inr ''https://site.com/lib/''] \<and>
   getScopeMatches goUrl ''https://site.com/lib/deep/mod.js'' (im_scopes scopedMap)
       (im_mapUrl scopedMap) (im_rootUrl scopedMap)
     = Inr [(''/lib/'', ''https://site.com/lib/''),
            (''/lib/deep/'', ''https://site.com/lib/deep/'')] \<and>
   isPlain goUrl ''x'' \<and>
   getMapMatch ''x'' (scopeAt (im_scopes scopedMap) ''/lib/'') = ''x'' \<and>
   getMapMatch ''x'' (scopeAt (im_scopes scopedMap) ''/lib/deep/'') = ''x'' \<and>
   resolveMatched goUrl scopedMap (scopeAt (im_scopes scopedMap) ''/lib/'') ''x'' ''x''
     = Inr ''https://site.com/shallow.js'' \<and>
   resolveMatched goUrl scopedMap (scopeAt (im_scopes scopedMap) ''/lib/deep/'') ''x'' ''x''
     = Inr ''https://site.com/deep.js'' \<and>
   ResolveWithParent goUrl scopedMap ''x'' (Some (httpsUrl ''site.com'' ''/lib/deep/mod.js''))
     = Inr ''https://site.com/shallow.js'' \<and>
   ResolveWithParent goUrl scopedMap ''./y.js'' (Some (httpsUrl ''site.com'' ''/lib/deep/mod.js''))
     = Inr ''https://site.com/shallow-y.js''"
proof -
  let ?parent = "httpsUrl ''site.com'' ''/lib/deep/mod.js''"
  let ?shallow = "(''/lib/'', ''https://site.com/lib/'')"
  let ?deep = "(''/lib/deep/'', ''https://site.com/lib/deep/'')"
  have p: "resolve goUrl (URL_String goUrl ?parent) (im_mapUrl scopedMap) (im_rootUrl scopedMap)
             = Inr ''https://site.com/lib/deep/mod.js''"
    by code_simp
  have ks: "mapKeys (im_scopes scopedMap) = [''/lib/deep/'', ''https://another.com/'', ''/lib/'']"
    by code_simp
  have r: "map (\<lambda>scope. resolve goUrl scope (im_mapUrl scopedMap) (im_rootUrl scopedMap))
               (mapKeys (im_scopes scopedMap))
             = [Inr ''https://site.com/lib/deep/'', Inr ''https://another.com/'',
                Inr ''https://site.com/lib/'']"
    by code_simp
  have keys: "\<forall>scope \<in> set (mapKeys (im_scopes scopedMap)).
                \<exists>scopeUrl. resolve goUrl scope (im_mapUrl scopedMap) (im_rootUrl scopedMap)
                             = Inr scopeUrl"
    using r unfolding ks by simp
  have e: "getScopeMatches goUrl ''https://site.com/lib/deep/mod.js'' (im_scopes scopedMap)
               (im_mapUrl scopedMap) (im_rootUrl scopedMap) = Inr [?shallow, ?deep]"
    by code_simp
  have plain: "isPlain goUrl ''x''" by code_simp
  have m1: "getMapMatch ''x'' (scopeAt (im_scopes scopedMap) ''/lib/'') = ''x''" by code_simp
  have m2: "getMapMatch ''x'' (scopeAt (im_scopes scopedMap) ''/lib/deep/'') = ''x''" by code_simp
  have t1: "resolveMatched goUrl scopedMap (scopeAt (im_scopes scopedMap) ''/lib/'') ''x'' ''x''
              = Inr ''https://site.com/shallow.js''" by code_simp
  have t2: "resolveMatched goUrl scopedMap (scopeAt (im_scopes scopedMap) ''/lib/deep/'') ''x'' ''x''
              = Inr ''https://site.com/deep.js''" by code_simp
  have nonPlain: "\<not> isPlain goUrl ''./y.js''" by code_simp
  have parsed: "url_Parse goUrl ''./y.js'' = Inr (emptyURL\<lparr>Path := ''./y.js''\<rparr>)" by code_simp
  have absolute: "URL_String goUrl (URL_ResolveReference goUrl ?parent (emptyURL\<lparr>Path := ''./y.js''\<rparr>))
                    = ''https://site.com/lib/deep/y.js''" by code_simp
  have retry: "matchWithRetries goUrl scopedMap True ''https://site.com/lib/deep/y.js''
                   (scopeAt (im_scopes scopedMap) ''/lib/'')
                 = Inr (''/lib/deep/y.js'', ''/lib/deep/y.js'')" by code_simp
  have t3: "resolveMatched goUrl scopedMap (scopeAt (im_scopes scopedMap) ''/lib/'')
                ''/lib/deep/y.js'' ''/lib/deep/y.js'' = Inr ''https://site.com/shallow-y.js''"
    by code_simp
  have x: "ResolveWithParent goUrl scopedMap ''x'' (Some ?parent) = Inr ''https://site.com/shallow.js''"
  proof -
    from ResolveWithParent_first_covering_scope_decides [OF p keys, of "''x''"]
    obtain scopeMatches where
      sm: "getScopeMatches goUrl ''https://site.com/lib/deep/mod.js'' (im_scopes scopedMap)
             (im_mapUrl scopedMap) (im_rootUrl scopedMap) = Inr scopeMatches" and
      decides: "\<And>before scopeMatch after.
         scopeMatches = before @ scopeMatch # after \<Longrightarrow>
         isPlain goUrl ''x'' \<Longrightarrow>
         \<forall>earlier \<in> set before.
            getMapMatch ''x'' (scopeAt (im_scopes scopedMap) (fst earlier)) = '''' \<Longrightarrow>
         getMapMatch ''x'' (scopeAt (im_scopes scopedMap) (fst scopeMatch)) \<noteq> '''' \<Longrightarrow>
         ResolveWithParent goUrl scopedMap ''x'' (Some ?parent)
           = resolveMatched goUrl scopedMap (scopeAt (im_scopes scopedMap) (fst scopeMatch))
               (getMapMatch ''x'' (scopeAt (im_scopes scopedMap) (fst scopeMatch))) ''x''"
      by blast
    from sm e have "scopeMatches = [] @ ?shallow # [?deep]" by simp
    from decides [OF this plain] m1 t1 show ?thesis by simp
  qed
  have y: "ResolveWithParent goUrl scopedMap ''./y.js'' (Some ?parent)
             = Inr ''https://site.com/shallow-y.js''"
  proof -
    from ResolveWithParent_first_covering_scope_decides [OF p keys, of "''./y.js''"]
    obtain scopeMatches where
      sm: "getScopeMatches goUrl ''https://site.com/lib/deep/mod.js'' (im_scopes scopedMap)
             (im_mapUrl scopedMap) (im_rootUrl scopedMap) = Inr scopeMatches" and
      decides: "\<And>before scopeMatch after u working mapMatch working'.
         scopeMatches = before @ scopeMatch # after \<Longrightarrow>
         \<not> isPlain goUrl ''./y.js'' \<Longrightarrow>
         url_Parse goUrl ''./y.js'' = Inr u \<Longrightarrow>
         ResolveWithParent_scopes goUrl scopedMap True before
             (URL_String goUrl (URL_ResolveReference goUrl ?parent u)) = Inr working \<Longrightarrow>
         matchWithRetries goUrl scopedMap True working
             (scopeAt (im_scopes scopedMap) (fst scopeMatch)) = Inr (mapMatch, working') \<Longrightarrow>
         mapMatch \<noteq> '''' \<Longrightarrow>
         ResolveWithParent goUrl scopedMap ''./y.js'' (Some ?parent)
           = resolveMatched goUrl scopedMap (scopeAt (im_scopes scopedMap) (fst scopeMatch))
               mapMatch working'"
      by blast
    from sm e have split: "scopeMatches = [] @ ?shallow # [?deep]" by simp
    have loop: "ResolveWithParent_scopes goUrl scopedMap True []
                  (URL_String goUrl (URL_ResolveReference goUrl ?parent (emptyURL\<lparr>Path := ''./y.js''\<rparr>)))
                  = Inr ''https://site.com/lib/deep/y.js''"
      using absolute by simp
    have here: "matchWithRetries goUrl scopedMap True ''https://site.com/lib/deep/y.js''
                   (scopeAt (im_scopes scopedMap) (fst ?shallow))
                 = Inr (''/lib/deep/y.js'', ''/lib/deep/y.js'')"
      using retry by simp
    from decides [OF split nonPlain parsed loop here] t3 show ?thesis by simp
  qed
  from p ks r e plain m1 m2 t1 t2 x y show ?thesis by blast
qed

section \<open>Unmapped specifiers\<close>

text \<open>
  Claim C5.  Let the parent location and the scopes resolve.  A plain specifier that no
  table of a matching scope and not the top-level table maps makes
  \<^verbatim>\<open>ResolveWithParent\<close> fail with the error that names the specifier and the parent
  location.  For a specifier that is not plain, let the loop over the matching scopes
  end without a return and let the top-level match, retries included, come back empty:
  then the result is the specifier resolved against the parent location, whatever the
  retries left in the working specifier.
\<close>

theorem ResolveWithParent_unmapped:
  assumes parent: "resolve lib (URL_String lib parent) (im_mapUrl i) (im_rootUrl i) = Inr parentUrlRaw"
      and scopes: "getScopeMatches lib parentUrlRaw (im_scopes i) (im_mapUrl i) (im_rootUrl i)
                     = Inr scopeMatches"
  shows "(isPlain lib specifier \<longrightarrow>
            (\<forall>scopeMatch \<in> set scopeMatches.
                getMapMatch specifier (scopeAt (im_scopes i) (fst scopeMatch)) = '''') \<longrightarrow>
            getMapMatch specifier (im_imports i) = '''' \<longrightarrow>
            ResolveWithParent lib i specifier (Some parent)
              = Inl (UnresolvedSpecifier specifier (URL_String lib parent))) \<and>
         (\<not> isPlain lib specifier \<longrightarrow>
            url_Parse lib specifier = Inr u \<longrightarrow>
            ResolveWithParent_scopes lib i True scopeMatches
                (URL_String lib (URL_ResolveReference lib parent u)) = Inr afterScopes \<longrightarrow>
            matchWithRetries lib i True afterScopes (im_imports i) = Inr ('''', afterImports) \<longrightarrow>
            ResolveWithParent lib i specifier (Some parent)
              = Inr (URL_String lib (URL_ResolveReference lib parent u)))"
proof (intro conjI impI)
  assume plain: "isPlain lib specifier"
     and noScope: "\<forall>scopeMatch \<in> set scopeMatches.
                     getMapMatch specifier (scopeAt (im_scopes i) (fst scopeMatch)) = ''''"
     and noTop: "getMapMatch specifier (im_imports i) = ''''"
  have su: "specifierUrlOf lib specifier parent = Inr None"
    using plain by (simp add: specifierUrlOf_def)
  show "ResolveWithParent lib i specifier (Some parent)
          = Inl (UnresolvedSpecifier specifier (URL_String lib parent))"
    by (simp add: ResolveWithParent_def parent su scopes scopes_loop_plain [OF noScope]
          matchWithRetries_plain noTop)
next
  assume nonPlain: "\<not> isPlain lib specifier"
     and parsed: "url_Parse lib specifier = Inr u"
     and loop: "ResolveWithParent_scopes lib i True scopeMatches
                  (URL_String lib (URL_ResolveReference lib parent u)) = Inr afterScopes"
     and top: "matchWithRetries lib i True afterScopes (im_imports i) = Inr ('''', afterImports)"
  have su: "specifierUrlOf lib specifier parent = Inr (Some (URL_ResolveReference lib parent u))"
    using nonPlain parsed by (simp add: specifierUrlOf_def)
  show "ResolveWithParent lib i specifier (Some parent)
          = Inr (URL_String lib (URL_ResolveReference lib parent u))"
    by (simp add: ResolveWithParent_def parent su scopes loop top)
qed

theorem ResolveWithParent_unmapped_witness:
  "isPlain goUrl ''react'' \<and> \<not> isPlain goUrl ''./react.js'' \<and>
   getScopeMatches goUrl ''https://another.com/x'' (im_scopes testMap) (im_mapUrl testMap)
       (im_rootUrl testMap) = Inr [(''https://another.com/'', ''https://another.com/'')] \<and>
   getMapMatch ''react'' (scopeAt (im_scopes testMap) ''https://another.com/'') = '''' \<and>
   getMapMatch ''react'' (im_imports testMap) = '''' \<and>
   ResolveWithParent goUrl testMap ''react'' (Some (httpsUrl ''another.com'' ''/x''))
     = Inl (UnresolvedSpecifier ''react'' ''https://another.com/x'') \<and>
   ResolveWithParent goUrl testMap ''./react.js'' (Some (httpsUrl ''another.com'' ''/x''))
     = Inr ''https://another.com/react.js''"
proof -
  let ?parent = "httpsUrl ''another.com'' ''/x''"
  have p: "resolve goUrl (URL_String goUrl ?parent) (im_mapUrl testMap) (im_rootUrl testMap)
             = Inr ''https://another.com/x''"
    by code_simp
  have s: "getScopeMatches goUrl ''https://another.com/x'' (im_scopes testMap) (im_mapUrl testMap)
             (im_rootUrl testMap) = Inr [(''https://another.com/'', ''https://another.com/'')]"
    by code_simp
  have plain: "isPlain goUrl ''react''"
    by code_simp
  have nonPlain: "\<not> isPlain goUrl ''./react.js''"
    by code_simp
  have noScope1: "getMapMatch ''react'' (scopeAt (im_scopes testMap) ''https://another.com/'') = ''''"
    by code_simp
  then have noScope:
    "\<forall>scopeMatch \<in> set [(''https://another.com/'', ''https://another.com/'')].
        getMapMatch ''react'' (scopeAt (im_scopes testMap) (fst scopeMatch)) = ''''"
    by simp
  have noTop: "getMapMatch ''react'' (im_imports testMap) = ''''"
    by code_simp
  have parsed: "url_Parse goUrl ''./react.js'' = Inr (emptyURL\<lparr>Path := ''./react.js''\<rparr>)"
    by code_simp
  have str: "URL_String goUrl (URL_ResolveReference goUrl ?parent (emptyURL\<lparr>Path := ''./react.js''\<rparr>))
               = ''https://another.com/react.js''"
    by code_simp
  have pstr: "URL_String goUrl ?parent = ''https://another.com/x''"
    by code_simp
  have loop: "ResolveWithParent_scopes goUrl testMap True
                [(''https://another.com/'', ''https://another.com/'')]
                (URL_String goUrl
                   (URL_ResolveReference goUrl ?parent (emptyURL\<lparr>Path := ''./react.js''\<rparr>)))
              = Inr ''https://another.com/react.js''"
    by code_simp
  have top: "matchWithRetries goUrl testMap True ''https://another.com/react.js''
               (im_imports testMap) = Inr ('''', ''https://another.com/react.js'')"
    by code_simp
  from ResolveWithParent_unmapped [OF p s, where specifier = "''react''"] plain noScope noTop
  have a: "ResolveWithParent goUrl testMap ''react'' (Some ?parent)
             = Inl (UnresolvedSpecifier ''react'' ''https://another.com/x'')"
    by (simp add: pstr)
  from ResolveWithParent_unmapped [OF p s, where specifier = "''./react.js''"
         and u = "emptyURL\<lparr>Path := ''./react.js''\<rparr>"
         and afterScopes = "''https://another.com/react.js''"
         and afterImports = "''https://another.com/react.js''"] nonPlain parsed loop top
  have b: "ResolveWithParent goUrl testMap ''./react.js'' (Some ?parent)
             = Inr ''https://another.com/react.js''"
    by (simp add: str)
  from plain nonPlain s noScope1 noTop a b show ?thesis by blast
qed

section \<open>The URL primitives\<close>

text \<open>
  Claim C9 says that \<^verbatim>\<open>resolve\<close> reads the second byte of its input in bounds whenever
  the input starts with \<^verbatim>\<open>/\<close> and a root is set.  The code reads \<^verbatim>\<open>inputUrl[1]\<close> with
  no check of the length: on the input \<^verbatim>\<open>/\<close> with a root set it panics, whatever the
  map location and the library.  The engine reaches that call: a map that sends
  \<^verbatim>\<open>app/\<close> to \<^verbatim>\<open>/\<close> panics when it resolves \<^verbatim>\<open>app/\<close>.
\<close>

theorem resolve_slash_with_root_panics:
  "resolve lib ''/'' mapUrl (Some root) = Inl (Panic IndexOutOfRange) \<and>
   Resolve goUrl slashMap ''app/'' = Inl (Panic IndexOutOfRange)"
proof
  show "resolve lib ''/'' mapUrl (Some root) = Inl (Panic IndexOutOfRange)"
    by (simp add: resolve_def HasPrefix_def)
  show "Resolve goUrl slashMap ''app/'' = Inl (Panic IndexOutOfRange)"
    by code_simp
qed

text \<open>
  Claim C6 says that rebasing the resolved form of a canonical absolute location gives
  the location back.  The repository's tests \<^verbatim>\<open>TestRebaseUrl\<close> and
  \<^verbatim>\<open>TestRebaseUrlNested\<close> (\<^verbatim>\<open>url_test.go\<close>) take \<^verbatim>\<open>file:///test/\<close> for canonical under the
  map \<^verbatim>\<open>file:///test/a/\<close> with the root \<^verbatim>\<open>file:///test/a/\<close> or \<^verbatim>\<open>file:///test/a/b/\<close>: they
  expect \<^verbatim>\<open>rebase\<close> to return it as it is.  On the code \<^verbatim>\<open>resolve\<close> leaves the location
  as it is and \<^verbatim>\<open>rebase\<close> then returns \<^verbatim>\<open>/file:///test/\<close>, through the branch for a root
  that lies under the resolved location.
\<close>

theorem rebase_after_resolve_of_test_location:
  "resolve goUrl ''file:///test/'' (Some (fileUrl ''/test/a/'')) (Some (fileUrl ''/test/a/''))
     = Inr ''file:///test/'' \<and>
   rebase goUrl ''file:///test/'' (Some (fileUrl ''/test/a/'')) (Some (fileUrl ''/test/a/''))
     = Inr ''/file:///test/'' \<and>
   resolve goUrl ''file:///test/'' (Some (fileUrl ''/test/a/'')) (Some (fileUrl ''/test/a/b/''))
     = Inr ''file:///test/'' \<and>
   rebase goUrl ''file:///test/'' (Some (fileUrl ''/test/a/'')) (Some (fileUrl ''/test/a/b/''))
     = Inr ''/file:///test/''"
  by code_simp

section \<open>Integrity lookups\<close>

text \<open>
  Claim C8 says that the second lookup of \<^verbatim>\<open>GetIntegrityValue\<close> is under the canonical
  form with a leading \<^verbatim>\<open>./\<close> stripped.  The code looks up \<^verbatim>\<open>targetRebased[2:]\<close>, the
  canonical form without its first two bytes whatever they are (\<^verbatim>\<open>SetIntegrityValue\<close>
  tests for \<^verbatim>\<open>./\<close> first): when the first lookup misses and the canonical form has two
  bytes or more, the result is the entry under the remaining bytes, and the
  integrity-not-found error when there is none.  So the query for \<^verbatim>\<open>/abc.js\<close>, whose
  canonical form is \<^verbatim>\<open>/abc.js\<close>, returns the hash stored for \<^verbatim>\<open>bc.js\<close>.
\<close>

theorem GetIntegrityValue_second_lookup_drops_two_bytes:
  assumes "rebase lib target (im_mapUrl i) (im_rootUrl i) = Inr targetRebased"
      and "mapGet (im_integrity i) targetRebased = None"
      and "2 \<le> length targetRebased"
  shows "GetIntegrityValue lib i target =
           (case mapGet (im_integrity i) (drop 2 targetRebased) of
              Some v \<Rightarrow> Inr v
            | None \<Rightarrow> Inl IntegrityNotFound)"
  using assms by (simp add: GetIntegrityValue_def)

theorem GetIntegrityValue_second_lookup_drops_two_bytes_witness:
  "rebase goUrl ''/abc.js'' (im_mapUrl integrityMap) (im_rootUrl integrityMap) = Inr ''/abc.js'' \<and>
   mapGet (im_integrity integrityMap) ''/abc.js'' = None \<and>
   \<not> HasPrefix ''/abc.js'' ''./'' \<and>
   mapGet (im_integrity integrityMap) ''bc.js'' = Some ''sha384-x'' \<and>
   GetIntegrityValue goUrl integrityMap ''/abc.js'' = Inr ''sha384-x''"
proof -
  have r: "rebase goUrl ''/abc.js'' (im_mapUrl integrityMap) (im_rootUrl integrityMap)
             = Inr ''/abc.js''"
    by code_simp
  have m: "mapGet (im_integrity integrityMap) ''/abc.js'' = None"
    by code_simp
  have n: "\<not> HasPrefix ''/abc.js'' ''./''"
    by code_simp
  have k: "mapGet (im_integrity integrityMap) ''bc.js'' = Some ''sha384-x''"
    by code_simp
  from GetIntegrityValue_second_lookup_drops_two_bytes [OF r m] k
  have "GetIntegrityValue goUrl integrityMap ''/abc.js'' = Inr ''sha384-x''"
    by simp
  with r m n k show ?thesis by blast
qed

text \<open>
  Claim C10 says that the slice \<^verbatim>\<open>targetRebased[2:]\<close> of \<^verbatim>\<open>GetIntegrityValue\<close> is in
  bounds also for a canonical form shorter than two bytes.  The code takes the slice
  with no check of the length: when the first lookup misses and the canonical form has
  fewer than two bytes, the call panics.  The query for \<^verbatim>\<open>/\<close>, whose canonical form is
  \<^verbatim>\<open>/\<close>, is one.
\<close>

theorem GetIntegrityValue_short_canonical_form_panics:
  assumes "rebase lib target (im_mapUrl i) (im_rootUrl i) = Inr targetRebased"
      and "mapGet (im_integrity i) targetRebased = None"
      and "length targetRebased < 2"
  shows "GetIntegrityValue lib i target = Inl (Panic SliceBoundsOutOfRange)"
  using assms by (simp add: GetIntegrityValue_def)

theorem GetIntegrityValue_short_canonical_form_panics_witness:
  "rebase goUrl ''/'' (im_mapUrl integrityMap) (im_rootUrl integrityMap) = Inr ''/'' \<and>
   mapGet (im_integrity integrityMap) ''/'' = None \<and>
   GetIntegrityValue goUrl integrityMap ''/'' = Inl (Panic SliceBoundsOutOfRange)"
proof -
  have r: "rebase goUrl ''/'' (im_mapUrl integrityMap) (im_rootUrl integrityMap) = Inr ''/''"
    by code_simp
  have m: "mapGet (im_integrity integrityMap) ''/'' = None"
    by code_simp
  from GetIntegrityValue_short_canonical_form_panics [OF r m]
  have "GetIntegrityValue goUrl integrityMap ''/'' = Inl (Panic SliceBoundsOutOfRange)"
    by simp
  with r m show ?thesis by blast
qed

section \<open>Relocation\<close>

lemma Rebase_table_plain_keys:
  "\<forall>importKey \<in> set keys. isPlain lib importKey \<Longrightarrow>
   Rebase_table lib oldMap oldRoot mapUrl rootUrl keys table
     = Rebase_table lib oldMap oldRoot mapUrl' rootUrl' keys table"
proof (induction keys arbitrary: table)
  case Nil
  show ?case by simp
next
  case (Cons k keys)
  then have k: "isPlain lib k" and rest: "\<forall>importKey \<in> set keys. isPlain lib importKey"
    by simp_all
  show ?case
    using k Cons.IH [OF rest]
    by (simp split: option.splits sum.splits)
qed

text \<open>
  Claim C1 says that \<^verbatim>\<open>Rebase\<close> stores every target resolved under the old pair and
  rebased onto the new pair.  The code rebases the resolved target onto the old pair,
  \<^verbatim>\<open>rebase(resolvedTarget, i.mapUrl, i.rootUrl)\<close>; only the keys go through
  \<^verbatim>\<open>rebase(..., mapUrl, rootUrl)\<close>.  So for a table whose keys are all plain the new
  pair has no part in what \<^verbatim>\<open>Rebase\<close> stores: any two new pairs give the same table.
\<close>

theorem Rebase_imports_ignores_new_pair:
  assumes "\<forall>importKey \<in> set (mapKeys importsMap). isPlain lib importKey"
  shows "Rebase_imports lib oldMap oldRoot mapUrl rootUrl importsMap
           = Rebase_imports lib oldMap oldRoot mapUrl' rootUrl' importsMap"
proof (cases importsMap)
  case None
  then show ?thesis by (simp add: Rebase_imports_def)
next
  case (Some table)
  with assms have "\<forall>importKey \<in> set (map fst table). isPlain lib importKey"
    by (simp add: mapKeys_def entries_def)
  from Rebase_table_plain_keys [OF this, where oldMap = oldMap and oldRoot = oldRoot
         and mapUrl = mapUrl and rootUrl = rootUrl and table = table
         and mapUrl' = mapUrl' and rootUrl' = rootUrl']
  show ?thesis
    by (simp add: Rebase_imports_def Some)
qed

text \<open>
  Moving \<open>mapAtA\<close> from \<^verbatim>\<open>https://a.com/\<close> to \<^verbatim>\<open>https://b.com/\<close>: the target \<^verbatim>\<open>./y.js\<close>
  resolves to \<^verbatim>\<open>https://a.com/y.js\<close>, which rebased onto the new pair is
  \<^verbatim>\<open>https://a.com/y.js\<close>; the code stores \<^verbatim>\<open>/y.js\<close>, its form under the old pair, as it
  does when the map stays where it is, and the moved map resolves \<^verbatim>\<open>x\<close> to
  \<^verbatim>\<open>https://b.com/y.js\<close> where it resolved it to \<^verbatim>\<open>https://a.com/y.js\<close> before.
\<close>

theorem Rebase_imports_ignores_new_pair_witness:
  "isPlain goUrl ''x'' \<and>
   Rebase_imports goUrl (im_mapUrl mapAtA) (im_rootUrl mapAtA)
       (Some (httpsUrl ''b.com'' ''/'')) (Some (httpsUrl ''b.com'' ''/'')) (im_imports mapAtA)
     = Rebase_imports goUrl (im_mapUrl mapAtA) (im_rootUrl mapAtA)
         (im_mapUrl mapAtA) (im_rootUrl mapAtA) (im_imports mapAtA) \<and>
   resolve goUrl ''./y.js'' (im_mapUrl mapAtA) (im_rootUrl mapAtA) = Inr ''https://a.com/y.js'' \<and>
   rebase goUrl ''https://a.com/y.js'' (Some (httpsUrl ''b.com'' ''/'')) (Some (httpsUrl ''b.com'' ''/''))
     = Inr ''https://a.com/y.js'' \<and>
   rebase goUrl ''https://a.com/y.js'' (im_mapUrl mapAtA) (im_rootUrl mapAtA) = Inr ''/y.js'' \<and>
   Rebase goUrl mapAtA (Some (httpsUrl ''b.com'' ''/'')) None
     = Inr (mapAtA\<lparr>im_imports := Some [(''x'', ''/y.js'')],
                    im_mapUrl := Some (httpsUrl ''b.com'' ''/''),
                    im_rootUrl := Some (httpsUrl ''b.com'' ''/'')\<rparr>) \<and>
   Resolve goUrl mapAtA ''x'' = Inr ''https://a.com/y.js'' \<and>
   Resolve goUrl (mapAtA\<lparr>im_imports := Some [(''x'', ''/y.js'')],
                         im_mapUrl := Some (httpsUrl ''b.com'' ''/''),
                         im_rootUrl := Some (httpsUrl ''b.com'' ''/'')\<rparr>) ''x''
     = Inr ''https://b.com/y.js''"
proof -
  have plain: "isPlain goUrl ''x''"
    by code_simp
  then have keys: "\<forall>importKey \<in> set (mapKeys (im_imports mapAtA)). isPlain goUrl importKey"
    by (simp add: mapKeys_def entries_def mapAtA_def)
  have evaluated:
    "resolve goUrl ''./y.js'' (im_mapUrl mapAtA) (im_rootUrl mapAtA) = Inr ''https://a.com/y.js'' \<and>
     rebase goUrl ''https://a.com/y.js'' (Some (httpsUrl ''b.com'' ''/'')) (Some (httpsUrl ''b.com'' ''/''))
       = Inr ''https://a.com/y.js'' \<and>
     rebase goUrl ''https://a.com/y.js'' (im_mapUrl mapAtA) (im_rootUrl mapAtA) = Inr ''/y.js'' \<and>
     Rebase goUrl mapAtA (Some (httpsUrl ''b.com'' ''/'')) None
       = Inr (mapAtA\<lparr>im_imports := Some [(''x'', ''/y.js'')],
                      im_mapUrl := Some (httpsUrl ''b.com'' ''/''),
                      im_rootUrl := Some (httpsUrl ''b.com'' ''/'')\<rparr>) \<and>
     Resolve goUrl mapAtA ''x'' = Inr ''https://a.com/y.js'' \<and>
     Resolve goUrl (mapAtA\<lparr>im_imports := Some [(''x'', ''/y.js'')],
                           im_mapUrl := Some (httpsUrl ''b.com'' ''/''),
                           im_rootUrl := Some (httpsUrl ''b.com'' ''/'')\<rparr>) ''x''
       = Inr ''https://b.com/y.js''"
    by code_simp
  from Rebase_imports_ignores_new_pair [OF keys] plain evaluated
  show ?thesis by blast
qed

text \<open>
  Claim C2 says that moving a map to another location and back gives the original
  tables.  The loop of \<^verbatim>\<open>Rebase\<close> over the integrity table overwrites each value with
  \<^verbatim>\<open>i.integrity[integrityValue]\<close>, the entry whose key is the stored hash.  So one
  \<^verbatim>\<open>Rebase\<close> already leaves the empty string for the hash of an integrity table of
  one entry, whenever the hash differs from the key and resolves.
\<close>

theorem Rebase_integrity_blanks_the_hash:
  assumes "integrityKey \<noteq> integrityValue"
      and "resolve lib integrityValue oldMap oldRoot = Inr resolvedIntegrityValue"
      and "rebase lib resolvedIntegrityValue oldMap oldRoot = Inr newValue"
  shows "Rebase_integrity lib oldMap oldRoot [integrityKey] [(integrityKey, integrityValue)]
           = Inr [(integrityKey, '''')]"
  using assms by (simp add: stringAt_def mapGet_def entries_def)

text \<open>
  \<open>cdnMap\<close> holds its entries in the form \<^verbatim>\<open>Rebase\<close> leaves targets in.  Moved from
  \<^verbatim>\<open>https://a.com/\<close> to \<^verbatim>\<open>https://b.com/\<close> and back, with the root inferred both times,
  it has its imports, its scopes, its location and its root again, but the hash of its
  integrity entry is the empty string.
\<close>

theorem Rebase_integrity_blanks_the_hash_witness:
  "''https://cdn.com/y.js'' \<noteq> ''sha384-abc'' \<and>
   resolve goUrl ''sha384-abc'' (im_mapUrl cdnMap) (im_rootUrl cdnMap)
     = Inr ''https://a.com/sha384-abc'' \<and>
   rebase goUrl ''https://a.com/sha384-abc'' (im_mapUrl cdnMap) (im_rootUrl cdnMap)
     = Inr ''/sha384-abc'' \<and>
   Rebase_integrity goUrl (im_mapUrl cdnMap) (im_rootUrl cdnMap) [''https://cdn.com/y.js'']
       [(''https://cdn.com/y.js'', ''sha384-abc'')] = Inr [(''https://cdn.com/y.js'', '''')] \<and>
   Rebase goUrl cdnMap (Some (httpsUrl ''b.com'' ''/'')) None
     = Inr (cdnMap\<lparr>im_integrity := Some [(''https://cdn.com/y.js'', '''')],
                    im_mapUrl := Some (httpsUrl ''b.com'' ''/''),
                    im_rootUrl := Some (httpsUrl ''b.com'' ''/'')\<rparr>) \<and>
   Rebase goUrl (cdnMap\<lparr>im_integrity := Some [(''https://cdn.com/y.js'', '''')],
                        im_mapUrl := Some (httpsUrl ''b.com'' ''/''),
                        im_rootUrl := Some (httpsUrl ''b.com'' ''/'')\<rparr>)
       (Some (httpsUrl ''a.com'' ''/'')) None
     = Inr (cdnMap\<lparr>im_integrity := Some [(''https://cdn.com/y.js'', '''')]\<rparr>) \<and>
   im_integrity cdnMap = Some [(''https://cdn.com/y.js'', ''sha384-abc'')]"
proof -
  have differ: "''https://cdn.com/y.js'' \<noteq> ''sha384-abc''"
    by simp
  have resolved: "resolve goUrl ''sha384-abc'' (im_mapUrl cdnMap) (im_rootUrl cdnMap)
                    = Inr ''https://a.com/sha384-abc''"
    by code_simp
  have rebased: "rebase goUrl ''https://a.com/sha384-abc'' (im_mapUrl cdnMap) (im_rootUrl cdnMap)
                   = Inr ''/sha384-abc''"
    by code_simp
  have moved:
    "Rebase goUrl cdnMap (Some (httpsUrl ''b.com'' ''/'')) None
       = Inr (cdnMap\<lparr>im_integrity := Some [(''https://cdn.com/y.js'', '''')],
                      im_mapUrl := Some (httpsUrl ''b.com'' ''/''),
                      im_rootUrl := Some (httpsUrl ''b.com'' ''/'')\<rparr>) \<and>
     Rebase goUrl (cdnMap\<lparr>im_integrity := Some [(''https://cdn.com/y.js'', '''')],
                          im_mapUrl := Some (httpsUrl ''b.com'' ''/''),
                          im_rootUrl := Some (httpsUrl ''b.com'' ''/'')\<rparr>)
         (Some (httpsUrl ''a.com'' ''/'')) None
       = Inr (cdnMap\<lparr>im_integrity := Some [(''https://cdn.com/y.js'', '''')]\<rparr>) \<and>
     im_integrity cdnMap = Some [(''https://cdn.com/y.js'', ''sha384-abc'')]"
    by code_simp
  from Rebase_integrity_blanks_the_hash [OF differ resolved rebased] differ resolved rebased moved
  show ?thesis by blast
qed

text \<open>
  The imports do not survive the round trip either when a target lies under the other
  location: \<open>foreignMap\<close>, moved to \<^verbatim>\<open>https://b.com/\<close> and back, holds \<^verbatim>\<open>/z.js\<close> for
  \<^verbatim>\<open>https://b.com/z.js\<close> and resolves \<^verbatim>\<open>x\<close> to \<^verbatim>\<open>https://a.com/z.js\<close>.  The first move
  keeps the target in its form under \<^verbatim>\<open>https://a.com/\<close>, the second rewrites it in its
  form under \<^verbatim>\<open>https://b.com/\<close>.
\<close>

lemma Rebase_there_and_back_changes_import:
  "Rebase goUrl foreignMap (Some (httpsUrl ''b.com'' ''/'')) None
     = Inr (foreignMap\<lparr>im_mapUrl := Some (httpsUrl ''b.com'' ''/''),
                        im_rootUrl := Some (httpsUrl ''b.com'' ''/'')\<rparr>) \<and>
   Rebase goUrl (foreignMap\<lparr>im_mapUrl := Some (httpsUrl ''b.com'' ''/''),
                            im_rootUrl := Some (httpsUrl ''b.com'' ''/'')\<rparr>)
       (Some (httpsUrl ''a.com'' ''/'')) None
     = Inr (foreignMap\<lparr>im_imports := Some [(''x'', ''/z.js'')]\<rparr>) \<and>
   Resolve goUrl foreignMap ''x'' = Inr ''https://b.com/z.js'' \<and>
   Resolve goUrl (foreignMap\<lparr>im_imports := Some [(''x'', ''/z.js'')]\<rparr>) ''x''
     = Inr ''https://a.com/z.js''"
  by code_simp

lemma Rebase_same_location_root:
  assumes "Rebase lib i (im_mapUrl i) None = Inr i'"
  shows "im_mapUrl i' = im_mapUrl i \<and> im_rootUrl i' = im_mapUrl i \<and> im_mapUrl i \<noteq> None"
proof (cases "im_mapUrl i")
  case None
  with assms show ?thesis by (simp add: Rebase_def)
next
  case (Some m)
  have root: "Rebase_rootUrl lib i m None = Some m"
    by (simp add: Rebase_rootUrl_def Some)
  from assms root show ?thesis
    by (auto simp: Rebase_def Some split: sum.splits option.splits)
qed

text \<open>
  Claim C7 says that \<^verbatim>\<open>Extend\<close> leaves the root location as it was.  \<^verbatim>\<open>Extend\<close> ends
  with \<^verbatim>\<open>i.Rebase(i.mapUrl, nil)\<close>, and \<^verbatim>\<open>Rebase\<close>, given no root and the location the
  map already has, takes \<^verbatim>\<open>i.mapUrl\<close> for the new root (line 275), not \<^verbatim>\<open>i.rootUrl\<close>.
  So after every \<^verbatim>\<open>Extend\<close> that returns without error the root is the map's declaring
  location.  \<open>appMap\<close>, declared at \<^verbatim>\<open>https://site.com/app/\<close> with the root
  \<^verbatim>\<open>https://site.com/\<close>, has the root \<^verbatim>\<open>https://site.com/app/\<close> after it is extended by a
  map with no entries, and resolves \<^verbatim>\<open>x\<close> to another location than before.
\<close>

theorem Extend_sets_root_to_declaring_location:
  assumes "Extend lib i other overrideScopes = Inr i'"
  shows "im_mapUrl i' = im_mapUrl i \<and> im_rootUrl i' = im_mapUrl i \<and> im_mapUrl i \<noteq> None"
proof -
  from assms obtain j where
    j: "Rebase lib j (im_mapUrl i) None = Inr i'" and m: "im_mapUrl j = im_mapUrl i"
    unfolding Extend_def by (auto split: sum.splits)
  from Rebase_same_location_root [of lib j i'] j m show ?thesis by simp
qed

theorem Extend_sets_root_to_declaring_location_witness:
  "Extend goUrl appMap noTables False
     = Inr (appMap\<lparr>im_imports := Some [(''x'', ''/app/y.js'')],
                    im_rootUrl := Some (httpsUrl ''site.com'' ''/app/'')\<rparr>) \<and>
   im_rootUrl appMap = Some (httpsUrl ''site.com'' ''/'') \<and>
   im_rootUrl (appMap\<lparr>im_imports := Some [(''x'', ''/app/y.js'')],
                      im_rootUrl := Some (httpsUrl ''site.com'' ''/app/'')\<rparr>) = im_mapUrl appMap \<and>
   Resolve goUrl appMap ''x'' = Inr ''https://site.com/app/y.js'' \<and>
   Resolve goUrl (appMap\<lparr>im_imports := Some [(''x'', ''/app/y.js'')],
                         im_rootUrl := Some (httpsUrl ''site.com'' ''/app/'')\<rparr>) ''x''
     = Inr ''https://site.com/app/app/y.js''"
proof -
  have e: "Extend goUrl appMap noTables False
             = Inr (appMap\<lparr>im_imports := Some [(''x'', ''/app/y.js'')],
                            im_rootUrl := Some (httpsUrl ''site.com'' ''/app/'')\<rparr>)"
    by code_simp
  have r: "im_rootUrl appMap = Some (httpsUrl ''site.com'' ''/'')"
    by (simp add: appMap_def)
  have before: "Resolve goUrl appMap ''x'' = Inr ''https://site.com/app/y.js''"
    by code_simp
  have after: "Resolve goUrl (appMap\<lparr>im_imports := Some [(''x'', ''/app/y.js'')],
                                   im_rootUrl := Some (httpsUrl ''site.com'' ''/app/'')\<rparr>) ''x''
                 = Inr ''https://site.com/app/app/y.js''"
    by code_simp
  from Extend_sets_root_to_declaring_location [OF e] e r before after
  show ?thesis by blast
qed

end
